theory Spec2Isabelle
  imports Complex_Main "HOL-Library.Multiset"
begin

section \<open>Numbers, enumerations and parameter records\<close>

text \<open>
  The scenario computation engine of the TCO calculator is embedded function by
  function. A TypeScript \<open>number\<close> that holds a dollar amount, a rate or a multiplier
  is a \<^typ>\<open>real\<close>: sums, products and comparisons are the exact ones, so every
  statement below is about the arithmetic the code writes down, not about rounding.
  The scenario year, which the schema declares an integer between 2020 and 2040, is an
  \<^typ>\<open>int\<close>. A field marked optional in the interface is an \<open>option\<close>. Field names
  are the source's; where two interfaces share a field name, the selector is written
  with its record name in front (\<open>MultiplierSet.energy\<close>, \<open>BaseTCOInput.energy\<close>).
\<close>

datatype Region = EU | US | Global

text \<open>
  \<open>WorkloadClass\<close> and \<open>RegulatoryIntensity\<close> are the same union of string literals
  \<open>"Low" | "Medium" | "High"\<close> in \<open>context/types.ts\<close>.
\<close>

datatype Level = Low | Medium | High

type_synonym WorkloadClass = Level

type_synonym RegulatoryIntensity = Level

record TimeParameters =
  year :: int
  escalationRate :: real
  shockFactor :: "real option"
  shockEnabled :: bool

record WorkloadParameters =
  utilizationClass :: WorkloadClass
  aiEnabled :: bool

record SecurityParameters =
  annualInvestment :: real
  siemPerNode :: real
  iamPerUser :: real
  encryptionPerTB :: real
  incidentResponseRetainer :: real
  userCount :: real

record RiskParameters =
  baseIncidentProbability :: real
  averageImpactCost :: real
  maxSecurityReduction :: real

record ScenarioParameters =
  id :: string
  name :: string
  description :: "string option"
  region :: Region
  time :: TimeParameters
  workload :: WorkloadParameters
  regulatoryIntensity :: RegulatoryIntensity
  security :: SecurityParameters
  risk :: RiskParameters
  isBaseline :: bool
  createdAt :: string
  updatedAt :: string

record MultiplierSet =
  energy :: real
  labor :: real
  compliance :: real
  cooling :: real
  monitoring :: real

record BaseTCOInput =
  land :: real
  servers :: real
  storage :: real
  network :: real
  powerDistribution :: real
  energy :: real
  software :: real
  labor :: real

record ComputationContext =
  nodeCount :: real
  totalStorageTB :: real

section \<open>Constant tables\<close>

text \<open>
  The tables of \<open>constants/regionMultipliers.ts\<close>, \<open>constants/timeParameters.ts\<close>,
  \<open>constants/workloadParameters.ts\<close> and \<open>constants/regulatoryParameters.ts\<close>. Each
  \<open>Record<Key, Config>\<close> is a function from the key; the descriptive string fields
  (assumptions, description, examples, typical scenarios) take no part in any
  computation and are left out.
\<close>

record RegionMultiplierConfig =
  energy :: real
  labor :: real
  compliance :: real

fun REGION_MULTIPLIERS :: "Region \<Rightarrow> RegionMultiplierConfig" where
  "REGION_MULTIPLIERS US =
     \<lparr>RegionMultiplierConfig.energy = 1.0, RegionMultiplierConfig.labor = 1.0,
      RegionMultiplierConfig.compliance = 1.0\<rparr>"
| "REGION_MULTIPLIERS EU =
     \<lparr>RegionMultiplierConfig.energy = 1.35, RegionMultiplierConfig.labor = 1.15,
      RegionMultiplierConfig.compliance = 1.4\<rparr>"
| "REGION_MULTIPLIERS Global =
     \<lparr>RegionMultiplierConfig.energy = 1.1, RegionMultiplierConfig.labor = 0.85,
      RegionMultiplierConfig.compliance = 1.15\<rparr>"

record TimeConstants =
  baselineYear :: int
  defaultEscalationRate :: real
  minEscalationRate :: real
  maxEscalationRate :: real
  minYear :: int
  maxYear :: int
  defaultShockFactor :: real
  maxShockFactor :: real

definition TIME_PARAMETERS :: TimeConstants where
  "TIME_PARAMETERS =
     \<lparr>baselineYear = 2024, defaultEscalationRate = 0.025, minEscalationRate = 0,
      maxEscalationRate = 0.2, minYear = 2020, maxYear = 2040,
      defaultShockFactor = 1.5, maxShockFactor = 3.0\<rparr>"

record WorkloadConfig =
  energy :: real
  cooling :: real
  monitoring :: real

text \<open>
  \<open>WORKLOAD_PARAMETERS\<close> is keyed by \<open>WorkloadClass | "AI_accelerated"\<close>; the entry
  under the extra key is the constant \<open>WORKLOAD_PARAMETERS_AI_accelerated\<close>.
\<close>

fun WORKLOAD_PARAMETERS :: "WorkloadClass \<Rightarrow> WorkloadConfig" where
  "WORKLOAD_PARAMETERS Low =
     \<lparr>WorkloadConfig.energy = 0.6, WorkloadConfig.cooling = 0.7,
      WorkloadConfig.monitoring = 0.8\<rparr>"
| "WORKLOAD_PARAMETERS Medium =
     \<lparr>WorkloadConfig.energy = 1.0, WorkloadConfig.cooling = 1.0,
      WorkloadConfig.monitoring = 1.0\<rparr>"
| "WORKLOAD_PARAMETERS High =
     \<lparr>WorkloadConfig.energy = 1.4, WorkloadConfig.cooling = 1.3,
      WorkloadConfig.monitoring = 1.2\<rparr>"

definition WORKLOAD_PARAMETERS_AI_accelerated :: WorkloadConfig where
  "WORKLOAD_PARAMETERS_AI_accelerated =
     \<lparr>WorkloadConfig.energy = 1.8, WorkloadConfig.cooling = 1.5,
      WorkloadConfig.monitoring = 1.3\<rparr>"

record RegulatoryConfig =
  auditFrequency :: real
  documentationHours :: real
  complianceMultiplier :: real
  externalAdvisoryIncluded :: bool

fun REGULATORY_PARAMETERS :: "RegulatoryIntensity \<Rightarrow> RegulatoryConfig" where
  "REGULATORY_PARAMETERS Low =
     \<lparr>RegulatoryConfig.auditFrequency = 0.5, RegulatoryConfig.documentationHours = 200,
      RegulatoryConfig.complianceMultiplier = 0.7, externalAdvisoryIncluded = False\<rparr>"
| "REGULATORY_PARAMETERS Medium =
     \<lparr>RegulatoryConfig.auditFrequency = 1.0, RegulatoryConfig.documentationHours = 500,
      RegulatoryConfig.complianceMultiplier = 1.0, externalAdvisoryIncluded = False\<rparr>"
| "REGULATORY_PARAMETERS High =
     \<lparr>RegulatoryConfig.auditFrequency = 2.0, RegulatoryConfig.documentationHours = 1200,
      RegulatoryConfig.complianceMultiplier = 1.5, externalAdvisoryIncluded = True\<rparr>"

record ComplianceBaseCosts =
  costPerAudit :: real
  externalAdvisory :: real
  certificationCosts :: real
  documentationHourlyRate :: real
  trainingPerEmployee :: real
  complianceTooling :: real

definition COMPLIANCE_BASE_COSTS :: ComplianceBaseCosts where
  "COMPLIANCE_BASE_COSTS =
     \<lparr>ComplianceBaseCosts.costPerAudit = 75000, externalAdvisory = 120000,
      ComplianceBaseCosts.certificationCosts = 50000, documentationHourlyRate = 75,
      trainingPerEmployee = 500, complianceTooling = 25000\<rparr>"

section \<open>Axis multiplier resolvers and the combiner (services/multipliers.ts)\<close>

definition getRegionMultipliers :: "Region \<Rightarrow> MultiplierSet" where
  "getRegionMultipliers r =
     (let regionConfig = REGION_MULTIPLIERS r in
      \<lparr>MultiplierSet.energy = RegionMultiplierConfig.energy regionConfig,
       MultiplierSet.labor = RegionMultiplierConfig.labor regionConfig,
       MultiplierSet.compliance = RegionMultiplierConfig.compliance regionConfig,
       MultiplierSet.cooling = 1.0,
       MultiplierSet.monitoring = 1.0\<rparr>)"

text \<open>
  \<open>Math.pow(b, n)\<close> at an integer exponent is the integer power \<open>b powi n\<close>; the two
  agree except at \<open>b = 0\<close> with \<open>n < 0\<close>, where JavaScript yields \<open>Infinity\<close>. That
  needs an escalation rate of exactly \<open>-1\<close>; the theorems that depend on the power
  assume a rate of at least 0.
\<close>

definition Math_pow :: "real \<Rightarrow> int \<Rightarrow> real" where
  "Math_pow b n = b powi n"

text \<open>
  The local constant \<open>energyShockMultiplier\<close> of \<open>getTimeMultipliers\<close>:
  \<open>time.shockEnabled ? (time.shockFactor || 1) : 1\<close>. The operator \<open>||\<close> replaces a
  missing shock factor and the falsy number 0 by 1.
\<close>

definition energyShockMultiplier :: "TimeParameters \<Rightarrow> real" where
  "energyShockMultiplier t =
     (if shockEnabled t
      then (case shockFactor t of None \<Rightarrow> 1 | Some v \<Rightarrow> if v = 0 then 1 else v)
      else 1)"

definition getTimeMultipliers :: "TimeParameters \<Rightarrow> MultiplierSet" where
  "getTimeMultipliers t =
     (let yearsFromBaseline = year t - baselineYear TIME_PARAMETERS;
          escalationFactor = Math_pow (1 + escalationRate t) yearsFromBaseline
      in
      \<lparr>MultiplierSet.energy = escalationFactor * energyShockMultiplier t,
       MultiplierSet.labor = escalationFactor,
       MultiplierSet.compliance = 1.0,
       MultiplierSet.cooling = escalationFactor,
       MultiplierSet.monitoring = 1.0\<rparr>)"

text \<open>
  \<open>calculateEscalationFactor\<close> of \<open>constants/timeParameters.ts\<close>, the second
  implementation of the escalation factor; it returns 1 for a year at or before the
  baseline.
\<close>

definition calculateEscalationFactor :: "int \<Rightarrow> real \<Rightarrow> real" where
  "calculateEscalationFactor targetYear rate =
     (let years = targetYear - baselineYear TIME_PARAMETERS in
      if years \<le> 0 then 1.0 else Math_pow (1 + rate) years)"

definition getWorkloadMultipliers :: "WorkloadParameters \<Rightarrow> MultiplierSet" where
  "getWorkloadMultipliers w =
     (let classConfig = WORKLOAD_PARAMETERS (utilizationClass w);
          multipliers =
            \<lparr>MultiplierSet.energy = WorkloadConfig.energy classConfig,
             MultiplierSet.labor = 1.0,
             MultiplierSet.compliance = 1.0,
             MultiplierSet.cooling = WorkloadConfig.cooling classConfig,
             MultiplierSet.monitoring = WorkloadConfig.monitoring classConfig\<rparr>
      in
      if aiEnabled w then
        (let aiConfig = WORKLOAD_PARAMETERS_AI_accelerated in
         \<lparr>MultiplierSet.energy = MultiplierSet.energy multipliers * WorkloadConfig.energy aiConfig,
          MultiplierSet.labor = MultiplierSet.labor multipliers,
          MultiplierSet.compliance = MultiplierSet.compliance multipliers,
          MultiplierSet.cooling = MultiplierSet.cooling multipliers * WorkloadConfig.cooling aiConfig,
          MultiplierSet.monitoring =
            MultiplierSet.monitoring multipliers * WorkloadConfig.monitoring aiConfig\<rparr>)
      else multipliers)"

definition getRegulatoryMultipliers :: "RegulatoryIntensity \<Rightarrow> MultiplierSet" where
  "getRegulatoryMultipliers intensity =
     (let regConfig = REGULATORY_PARAMETERS intensity in
      \<lparr>MultiplierSet.energy = 1.0,
       MultiplierSet.labor = 1.0,
       MultiplierSet.compliance = RegulatoryConfig.complianceMultiplier regConfig,
       MultiplierSet.cooling = 1.0,
       MultiplierSet.monitoring = 1.0\<rparr>)"

text \<open>
  \<open>combineMultipliers\<close> starts from the all-1.0 set and multiplies every field by the
  same field of each set of the list, in list order. \<open>combineStep\<close> is the body of
  the \<open>for\<close> loop, \<open>combineLoop\<close> the loop.
\<close>

definition combineStep :: "MultiplierSet \<Rightarrow> MultiplierSet \<Rightarrow> MultiplierSet" where
  "combineStep combined s =
     \<lparr>MultiplierSet.energy = MultiplierSet.energy combined * MultiplierSet.energy s,
      MultiplierSet.labor = MultiplierSet.labor combined * MultiplierSet.labor s,
      MultiplierSet.compliance = MultiplierSet.compliance combined * MultiplierSet.compliance s,
      MultiplierSet.cooling = MultiplierSet.cooling combined * MultiplierSet.cooling s,
      MultiplierSet.monitoring = MultiplierSet.monitoring combined * MultiplierSet.monitoring s\<rparr>"

fun combineLoop :: "MultiplierSet \<Rightarrow> MultiplierSet list \<Rightarrow> MultiplierSet" where
  "combineLoop combined [] = combined"
| "combineLoop combined (s # rest) = combineLoop (combineStep combined s) rest"

definition combineMultipliers :: "MultiplierSet list \<Rightarrow> MultiplierSet" where
  "combineMultipliers multiplierSets =
     combineLoop
       \<lparr>MultiplierSet.energy = 1.0, MultiplierSet.labor = 1.0, MultiplierSet.compliance = 1.0,
        MultiplierSet.cooling = 1.0, MultiplierSet.monitoring = 1.0\<rparr>
       multiplierSets"

section \<open>Result records (context/types.ts)\<close>

record ComplianceBreakdown =
  auditFrequency :: real
  costPerAudit :: real
  documentationHours :: real
  hourlyRate :: real

record ComplianceCosts =
  auditCosts :: real
  documentationCosts :: real
  advisoryCosts :: real
  certificationCosts :: real
  total :: real
  breakdown :: ComplianceBreakdown

record SecurityCosts =
  siemCosts :: real
  iamCosts :: real
  encryptionCosts :: real
  incidentResponseCosts :: real
  total :: real

record RiskBreakdown =
  baseIncidentProbability :: real
  securityInvestment :: real
  averageImpactCost :: real

record RiskCosts =
  expectedAnnualLoss :: real
  adjustedProbability :: real
  securityReductionFactor :: real
  breakdown :: RiskBreakdown

record Adjustments =
  energyAdjustment :: real
  laborAdjustment :: real
  coolingAdjustment :: real
  total :: real

record BaseTCOBreakdown =
  land :: real
  servers :: real
  storage :: real
  network :: real
  powerDistribution :: real
  energy :: real
  software :: real
  labor :: real
  total :: real

text \<open>
  In the breakdown the time entry's \<open>shockFactor\<close> is
  \<open>scenario.time.shockEnabled ? scenario.time.shockFactor : 1\<close>, which passes a
  missing shock factor on as it is, so the field is an \<open>option\<close> as well.
\<close>

record TimeMultiplierInfo =
  escalationFactor :: real
  shockFactor :: "real option"

record RegulatoryMultiplierInfo =
  complianceMultiplier :: real

record Multipliers =
  region :: MultiplierSet
  time :: TimeMultiplierInfo
  workload :: MultiplierSet
  regulatory :: RegulatoryMultiplierInfo
  combined :: MultiplierSet

record Totals =
  baseTCO :: real
  adjustments :: real
  compliance :: real
  security :: real
  risk :: real
  grandTotal :: real

record ComputationBreakdown =
  scenarioId :: string
  scenarioName :: string
  baseTCO :: BaseTCOBreakdown
  multipliers :: Multipliers
  adjustments :: Adjustments
  complianceCosts :: ComplianceCosts
  securityCosts :: SecurityCosts
  riskCosts :: RiskCosts
  totals :: Totals
  calculatedAt :: string

section \<open>The cost layers (services/computationEngine.ts)\<close>

text \<open>
  \<open>calculateComplianceCosts(scenario, laborHourlyRate = 75)\<close>: the second parameter
  has a default, taken when the caller passes none (\<open>None\<close>).
\<close>

definition calculateComplianceCosts :: "ScenarioParameters \<Rightarrow> real option \<Rightarrow> ComplianceCosts" where
  "calculateComplianceCosts scenario laborHourlyRateArg =
     (let laborHourlyRate = (case laborHourlyRateArg of None \<Rightarrow> 75 | Some v \<Rightarrow> v);
          regParams = REGULATORY_PARAMETERS (regulatoryIntensity scenario);
          baseCosts = COMPLIANCE_BASE_COSTS;
          auditCosts = RegulatoryConfig.auditFrequency regParams *
                       ComplianceBaseCosts.costPerAudit baseCosts;
          documentationCosts = RegulatoryConfig.documentationHours regParams * laborHourlyRate;
          advisoryCosts =
            (if externalAdvisoryIncluded regParams then externalAdvisory baseCosts else 0);
          certificationCosts = ComplianceBaseCosts.certificationCosts baseCosts *
                               RegulatoryConfig.complianceMultiplier regParams
      in
      \<lparr>auditCosts = auditCosts,
       documentationCosts = documentationCosts,
       advisoryCosts = advisoryCosts,
       ComplianceCosts.certificationCosts = certificationCosts,
       ComplianceCosts.total =
         auditCosts + documentationCosts + advisoryCosts + certificationCosts,
       ComplianceCosts.breakdown =
         \<lparr>ComplianceBreakdown.auditFrequency = RegulatoryConfig.auditFrequency regParams,
          ComplianceBreakdown.costPerAudit = ComplianceBaseCosts.costPerAudit baseCosts,
          ComplianceBreakdown.documentationHours = RegulatoryConfig.documentationHours regParams,
          hourlyRate = laborHourlyRate\<rparr>\<rparr>)"

definition calculateSecurityCosts :: "ScenarioParameters \<Rightarrow> ComputationContext \<Rightarrow> SecurityCosts" where
  "calculateSecurityCosts scenario context =
     (let sec = ScenarioParameters.security scenario;
          siemCosts = siemPerNode sec * nodeCount context;
          iamCosts = iamPerUser sec * userCount sec;
          encryptionCosts = encryptionPerTB sec * totalStorageTB context;
          incidentResponseCosts = incidentResponseRetainer sec
      in
      \<lparr>siemCosts = siemCosts,
       iamCosts = iamCosts,
       encryptionCosts = encryptionCosts,
       incidentResponseCosts = incidentResponseCosts,
       SecurityCosts.total = siemCosts + iamCosts + encryptionCosts + incidentResponseCosts\<rparr>)"

text \<open>
  The risk model. \<open>Math.log\<close> is the natural logarithm \<open>ln\<close>; the two agree on
  positive arguments, which is where the model is read: the argument
  \<open>1 + totalSecurityInvestment / 50000\<close> is positive for every investment above
  \<open>-50000\<close>, and the theorems on the risk layer assume a non-negative investment.
\<close>

definition referenceInvestment :: real where
  "referenceInvestment = 50000"

definition maxInvestment :: real where
  "maxInvestment = 500000"

definition calculateRiskCosts :: "ScenarioParameters \<Rightarrow> real \<Rightarrow> RiskCosts" where
  "calculateRiskCosts scenario totalSecurityInvestment =
     (let rsk = ScenarioParameters.risk scenario;
          investmentRatio = ln (1 + totalSecurityInvestment / referenceInvestment) /
                            ln (1 + maxInvestment / referenceInvestment);
          securityReductionFactor =
            min (maxSecurityReduction rsk) (investmentRatio * maxSecurityReduction rsk);
          adjustedProbability =
            RiskParameters.baseIncidentProbability rsk * (1 - securityReductionFactor);
          expectedAnnualLoss = adjustedProbability * RiskParameters.averageImpactCost rsk
      in
      \<lparr>expectedAnnualLoss = expectedAnnualLoss,
       adjustedProbability = adjustedProbability,
       securityReductionFactor = securityReductionFactor,
       RiskCosts.breakdown =
         \<lparr>RiskBreakdown.baseIncidentProbability = RiskParameters.baseIncidentProbability rsk,
          securityInvestment = totalSecurityInvestment,
          RiskBreakdown.averageImpactCost = RiskParameters.averageImpactCost rsk\<rparr>\<rparr>)"

definition applyMultipliers :: "BaseTCOInput \<Rightarrow> MultiplierSet \<Rightarrow> Adjustments" where
  "applyMultipliers base mults =
     (let energyAdjustment = BaseTCOInput.energy base * (MultiplierSet.energy mults - 1);
          laborAdjustment = BaseTCOInput.labor base * (MultiplierSet.labor mults - 1);
          coolingPortion = BaseTCOInput.powerDistribution base * 0.4;
          coolingAdjustment = coolingPortion * (MultiplierSet.cooling mults - 1);
          total = energyAdjustment + laborAdjustment + coolingAdjustment
      in
      \<lparr>energyAdjustment = energyAdjustment,
       laborAdjustment = laborAdjustment,
       coolingAdjustment = coolingAdjustment,
       Adjustments.total = total\<rparr>)"

section \<open>The breakdown assembler\<close>

text \<open>
  \<open>Object.values(baseTCO)\<close> lists the values of the eight fields in the order of the
  interface; \<open>reduce((sum, val) => sum + val, 0)\<close> is a left fold from 0.
\<close>

definition Object_values :: "BaseTCOInput \<Rightarrow> real list" where
  "Object_values base =
     [BaseTCOInput.land base, BaseTCOInput.servers base, BaseTCOInput.storage base,
      BaseTCOInput.network base, BaseTCOInput.powerDistribution base,
      BaseTCOInput.energy base, BaseTCOInput.software base, BaseTCOInput.labor base]"

text \<open>
  \<open>computeScenarioTCO\<close> reads the clock once, for the field \<open>calculatedAt\<close>
  (\<open>new Date().toISOString()\<close>). The reading is the explicit first argument \<open>now\<close>:
  two calls are two readings. Everything else is computed from the three parameters.
\<close>

definition computeScenarioTCO ::
  "string \<Rightarrow> BaseTCOInput \<Rightarrow> ScenarioParameters \<Rightarrow> ComputationContext \<Rightarrow> ComputationBreakdown" where
  "computeScenarioTCO now base scenario context =
     (let regionMultipliers = getRegionMultipliers (ScenarioParameters.region scenario);
          timeMultipliers = getTimeMultipliers (ScenarioParameters.time scenario);
          workloadMultipliers = getWorkloadMultipliers (ScenarioParameters.workload scenario);
          regulatoryMultipliers = getRegulatoryMultipliers (regulatoryIntensity scenario);
          combinedMultipliers =
            combineMultipliers [regionMultipliers, timeMultipliers, workloadMultipliers];
          adjs = applyMultipliers base combinedMultipliers;
          complianceCosts = calculateComplianceCosts scenario None;
          securityCosts = calculateSecurityCosts scenario context;
          totalSecurityInvestment =
            SecurityCosts.total securityCosts +
            annualInvestment (ScenarioParameters.security scenario);
          riskCosts = calculateRiskCosts scenario totalSecurityInvestment;
          baseTCOTotal = foldl (\<lambda>sum val. sum + val) 0 (Object_values base);
          adjustmentsTotal = Adjustments.total adjs;
          complianceTotal = ComplianceCosts.total complianceCosts;
          securityTotal = SecurityCosts.total securityCosts;
          riskTotal = expectedAnnualLoss riskCosts;
          grandTotal =
            baseTCOTotal + adjustmentsTotal + complianceTotal + securityTotal + riskTotal
      in
      \<lparr>scenarioId = ScenarioParameters.id scenario,
       scenarioName = ScenarioParameters.name scenario,
       ComputationBreakdown.baseTCO =
         \<lparr>BaseTCOBreakdown.land = BaseTCOInput.land base,
          BaseTCOBreakdown.servers = BaseTCOInput.servers base,
          BaseTCOBreakdown.storage = BaseTCOInput.storage base,
          BaseTCOBreakdown.network = BaseTCOInput.network base,
          BaseTCOBreakdown.powerDistribution = BaseTCOInput.powerDistribution base,
          BaseTCOBreakdown.energy = BaseTCOInput.energy base,
          BaseTCOBreakdown.software = BaseTCOInput.software base,
          BaseTCOBreakdown.labor = BaseTCOInput.labor base,
          BaseTCOBreakdown.total = baseTCOTotal\<rparr>,
       multipliers =
         \<lparr>Multipliers.region = regionMultipliers,
          Multipliers.time =
            \<lparr>escalationFactor = MultiplierSet.energy timeMultipliers,
             TimeMultiplierInfo.shockFactor =
               (if shockEnabled (ScenarioParameters.time scenario)
                then TimeParameters.shockFactor (ScenarioParameters.time scenario)
                else Some 1)\<rparr>,
          Multipliers.workload = workloadMultipliers,
          regulatory =
            \<lparr>RegulatoryMultiplierInfo.complianceMultiplier =
               MultiplierSet.compliance regulatoryMultipliers\<rparr>,
          combined = combinedMultipliers\<rparr>,
       ComputationBreakdown.adjustments = adjs,
       complianceCosts = complianceCosts,
       securityCosts = securityCosts,
       riskCosts = riskCosts,
       totals =
         \<lparr>Totals.baseTCO = baseTCOTotal,
          Totals.adjustments = adjustmentsTotal,
          Totals.compliance = complianceTotal,
          Totals.security = securityTotal,
          Totals.risk = riskTotal,
          grandTotal = grandTotal\<rparr>,
       calculatedAt = now\<rparr>)"

section \<open>Sensitivity analysis\<close>

datatype SensitivityParameter = ParamEnergy | ParamLabor | ParamSecurity

record SensitivityBreakdowns =
  low :: ComputationBreakdown
  base :: ComputationBreakdown
  high :: ComputationBreakdown

text \<open>
  \<open>calculateSensitivity(baseTCO, scenario, context, parameter, perturbationPercent = 0.2)\<close>
  calls \<open>computeScenarioTCO\<close> three times, for the base case, the low case and the
  high case in that order; \<open>nowBase\<close>, \<open>nowLow\<close> and \<open>nowHigh\<close> are the three clock
  readings. The shallow copies \<open>{ ...baseTCO }\<close> and \<open>{ ...scenario }\<close> are the values
  themselves.
\<close>

definition calculateSensitivity ::
  "string \<Rightarrow> string \<Rightarrow> string \<Rightarrow> BaseTCOInput \<Rightarrow> ScenarioParameters \<Rightarrow> ComputationContext \<Rightarrow>
   SensitivityParameter \<Rightarrow> real option \<Rightarrow> SensitivityBreakdowns" where
  "calculateSensitivity nowBase nowLow nowHigh baseIn scenario context parameter perturbationArg =
     (let perturbationPercent = (case perturbationArg of None \<Rightarrow> 0.2 | Some v \<Rightarrow> v);
          baseResult = computeScenarioTCO nowBase baseIn scenario context;
          lowInput =
            (case parameter of
               ParamEnergy \<Rightarrow>
                 baseIn\<lparr>BaseTCOInput.energy :=
                   BaseTCOInput.energy baseIn * (1 - perturbationPercent)\<rparr>
             | ParamLabor \<Rightarrow>
                 baseIn\<lparr>BaseTCOInput.labor :=
                   BaseTCOInput.labor baseIn * (1 - perturbationPercent)\<rparr>
             | ParamSecurity \<Rightarrow> baseIn);
          highInput =
            (case parameter of
               ParamEnergy \<Rightarrow>
                 baseIn\<lparr>BaseTCOInput.energy :=
                   BaseTCOInput.energy baseIn * (1 + perturbationPercent)\<rparr>
             | ParamLabor \<Rightarrow>
                 baseIn\<lparr>BaseTCOInput.labor :=
                   BaseTCOInput.labor baseIn * (1 + perturbationPercent)\<rparr>
             | ParamSecurity \<Rightarrow> baseIn);
          lowScenario =
            (case parameter of
               ParamSecurity \<Rightarrow>
                 scenario\<lparr>ScenarioParameters.security :=
                   (ScenarioParameters.security scenario)\<lparr>annualInvestment :=
                      annualInvestment (ScenarioParameters.security scenario) *
                      (1 - perturbationPercent)\<rparr>\<rparr>
             | _ \<Rightarrow> scenario);
          highScenario =
            (case parameter of
               ParamSecurity \<Rightarrow>
                 scenario\<lparr>ScenarioParameters.security :=
                   (ScenarioParameters.security scenario)\<lparr>annualInvestment :=
                      annualInvestment (ScenarioParameters.security scenario) *
                      (1 + perturbationPercent)\<rparr>\<rparr>
             | _ \<Rightarrow> scenario);
          lowResult = computeScenarioTCO nowLow lowInput lowScenario context;
          highResult = computeScenarioTCO nowHigh highInput highScenario context
      in \<lparr>low = lowResult, base = baseResult, high = highResult\<rparr>)"

section \<open>Scenario comparison\<close>

text \<open>
  The percentage change divides by a total that may be zero, and the claim about it is
  about the values JavaScript gives a division by zero. The result of that one
  computation is therefore a \<open>jsnumber\<close>: a finite value, one of the two infinities,
  or \<open>NaN\<close>. \<open>js_divide\<close> is \<open>/\<close> on two finite operands and \<open>js_times\<close> is \<open>*\<close> with
  a finite right operand, as IEEE 754 defines them (a zero denominator is read as
  \<open>+0\<close>; overflow to infinity is not modelled).
\<close>

datatype jsnumber = Finite real | PosInfinity | NegInfinity | NaN

definition js_divide :: "real \<Rightarrow> real \<Rightarrow> jsnumber" where
  "js_divide a b =
     (if b \<noteq> 0 then Finite (a / b)
      else if a = 0 then NaN
      else if 0 < a then PosInfinity
      else NegInfinity)"

fun js_times :: "jsnumber \<Rightarrow> real \<Rightarrow> jsnumber" where
  "js_times (Finite a) b = Finite (a * b)"
| "js_times NaN b = NaN"
| "js_times PosInfinity b =
     (if b = 0 then NaN else if 0 < b then PosInfinity else NegInfinity)"
| "js_times NegInfinity b =
     (if b = 0 then NaN else if 0 < b then NegInfinity else PosInfinity)"

datatype jsvalue = StringValue string | NumberValue real

fun Region_string :: "Region \<Rightarrow> string" where
  "Region_string EU = ''EU''"
| "Region_string US = ''US''"
| "Region_string Global = ''Global''"

fun Level_string :: "Level \<Rightarrow> string" where
  "Level_string Low = ''Low''"
| "Level_string Medium = ''Medium''"
| "Level_string High = ''High''"

record Deltas =
  baseTCO :: real
  adjustments :: real
  compliance :: real
  security :: real
  risk :: real
  grandTotal :: real
  percentageChange :: jsnumber

record ParameterDifference =
  parameter :: string
  valueA :: jsvalue
  valueB :: jsvalue

record ComparedScenario =
  id :: string
  name :: string
  parameters :: ScenarioParameters
  breakdown :: ComputationBreakdown

record ScenarioComparison =
  scenarioA :: ComparedScenario
  scenarioB :: ComparedScenario
  deltas :: Deltas
  parameterDifferences :: "ParameterDifference list"

definition compareScenarios ::
  "ComputationBreakdown \<Rightarrow> ComputationBreakdown \<Rightarrow> ScenarioParameters \<Rightarrow> ScenarioParameters \<Rightarrow>
   ScenarioComparison" where
  "compareScenarios breakdownA breakdownB scenA scenB =
     (let tA = totals breakdownA;
          tB = totals breakdownB;
          timeA = ScenarioParameters.time scenA;
          timeB = ScenarioParameters.time scenB;
          workA = ScenarioParameters.workload scenA;
          workB = ScenarioParameters.workload scenB;
          secA = ScenarioParameters.security scenA;
          secB = ScenarioParameters.security scenB
      in
      \<lparr>scenarioA =
         \<lparr>ComparedScenario.id = ScenarioParameters.id scenA,
          ComparedScenario.name = ScenarioParameters.name scenA,
          parameters = scenA, ComparedScenario.breakdown = breakdownA\<rparr>,
       scenarioB =
         \<lparr>ComparedScenario.id = ScenarioParameters.id scenB,
          ComparedScenario.name = ScenarioParameters.name scenB,
          parameters = scenB, ComparedScenario.breakdown = breakdownB\<rparr>,
       deltas =
         \<lparr>Deltas.baseTCO = Totals.baseTCO tB - Totals.baseTCO tA,
          Deltas.adjustments = Totals.adjustments tB - Totals.adjustments tA,
          Deltas.compliance = Totals.compliance tB - Totals.compliance tA,
          Deltas.security = Totals.security tB - Totals.security tA,
          Deltas.risk = Totals.risk tB - Totals.risk tA,
          Deltas.grandTotal = Totals.grandTotal tB - Totals.grandTotal tA,
          percentageChange =
            js_times
              (js_divide (Totals.grandTotal tB - Totals.grandTotal tA) (Totals.grandTotal tA))
              100\<rparr>,
       parameterDifferences =
         (if ScenarioParameters.region scenA \<noteq> ScenarioParameters.region scenB
          then [\<lparr>parameter = ''Region'',
                 valueA = StringValue (Region_string (ScenarioParameters.region scenA)),
                 valueB = StringValue (Region_string (ScenarioParameters.region scenB))\<rparr>]
          else []) @
         (if year timeA \<noteq> year timeB
          then [\<lparr>parameter = ''Year'',
                 valueA = NumberValue (of_int (year timeA)),
                 valueB = NumberValue (of_int (year timeB))\<rparr>]
          else []) @
         (if utilizationClass workA \<noteq> utilizationClass workB
          then [\<lparr>parameter = ''Workload Class'',
                 valueA = StringValue (Level_string (utilizationClass workA)),
                 valueB = StringValue (Level_string (utilizationClass workB))\<rparr>]
          else []) @
         (if aiEnabled workA \<noteq> aiEnabled workB
          then [\<lparr>parameter = ''AI Mode'',
                 valueA = StringValue (if aiEnabled workA then ''Enabled'' else ''Disabled''),
                 valueB = StringValue (if aiEnabled workB then ''Enabled'' else ''Disabled'')\<rparr>]
          else []) @
         (if regulatoryIntensity scenA \<noteq> regulatoryIntensity scenB
          then [\<lparr>parameter = ''Regulatory Intensity'',
                 valueA = StringValue (Level_string (regulatoryIntensity scenA)),
                 valueB = StringValue (Level_string (regulatoryIntensity scenB))\<rparr>]
          else []) @
         (if annualInvestment secA \<noteq> annualInvestment secB
          then [\<lparr>parameter = ''Security Investment'',
                 valueA = NumberValue (annualInvestment secA),
                 valueB = NumberValue (annualInvestment secB)\<rparr>]
          else [])\<rparr>)"

text \<open>
  The comparison panel (\<open>components/scenarioComparison.tsx\<close>) computes the same
  percentage on its own, behind a test of the baseline total:
  \<open>breakdownA.totals.grandTotal !== 0 ? (deltas.grandTotal / breakdownA.totals.grandTotal) * 100 : 0\<close>.
\<close>

definition panelPercentageChange :: "ComputationBreakdown \<Rightarrow> ComputationBreakdown \<Rightarrow> jsnumber" where
  "panelPercentageChange breakdownA breakdownB =
     (let deltaGrandTotal =
            Totals.grandTotal (totals breakdownB) - Totals.grandTotal (totals breakdownA)
      in
      if Totals.grandTotal (totals breakdownA) \<noteq> 0
      then js_times (js_divide deltaGrandTotal (Totals.grandTotal (totals breakdownA))) 100
      else Finite 0)"

section \<open>Orderings of the scenario axes, and sample inputs\<close>

text \<open>
  The intensity order of the two three-level axes is the order of the schema's
  \<open>enum: ["Low", "Medium", "High"]\<close>; \<open>levelRank\<close> is the position in it.
\<close>

fun levelRank :: "Level \<Rightarrow> nat" where
  "levelRank Low = 0"
| "levelRank Medium = 1"
| "levelRank High = 2"

text \<open>
  The defaults of \<open>createTestScenario\<close> in \<open>constants/testScenarios.ts\<close>, with a fixed
  identifier and fixed timestamps in place of \<open>uuidv4()\<close> and the clock, together
  with a small data centre to run it on.
\<close>

definition testScenario :: ScenarioParameters where
  "testScenario =
     \<lparr>ScenarioParameters.id = ''scenario-1'',
      ScenarioParameters.name = ''Test'',
      description = Some ''Test scenario: Test'',
      ScenarioParameters.region = US,
      ScenarioParameters.time =
        \<lparr>year = 2024, escalationRate = 0.025,
         TimeParameters.shockFactor = Some 1.5, shockEnabled = False\<rparr>,
      ScenarioParameters.workload = \<lparr>utilizationClass = Medium, aiEnabled = False\<rparr>,
      regulatoryIntensity = Medium,
      ScenarioParameters.security =
        \<lparr>annualInvestment = 100000, siemPerNode = 500, iamPerUser = 100,
         encryptionPerTB = 50, incidentResponseRetainer = 50000, userCount = 50\<rparr>,
      ScenarioParameters.risk =
        \<lparr>RiskParameters.baseIncidentProbability = 0.15,
         RiskParameters.averageImpactCost = 500000,
         maxSecurityReduction = 0.8\<rparr>,
      isBaseline = False,
      createdAt = ''2024-01-01T00:00:00.000Z'',
      updatedAt = ''2024-01-01T00:00:00.000Z''\<rparr>"

definition testBaseTCO :: BaseTCOInput where
  "testBaseTCO =
     \<lparr>BaseTCOInput.land = 100000, BaseTCOInput.servers = 500000,
      BaseTCOInput.storage = 80000, BaseTCOInput.network = 60000,
      BaseTCOInput.powerDistribution = 150000, BaseTCOInput.energy = 200000,
      BaseTCOInput.software = 40000, BaseTCOInput.labor = 300000\<rparr>"

definition testContext :: ComputationContext where
  "testContext = \<lparr>nodeCount = 100, totalStorageTB = 500\<rparr>"

text \<open>
  A scenario without itemized security costs and without investment: the total
  security investment fed to the risk model is then exactly \<open>annualInvestment\<close>.
\<close>

definition noSecurityScenario :: ScenarioParameters where
  "noSecurityScenario =
     testScenario\<lparr>ScenarioParameters.security :=
       \<lparr>annualInvestment = 0, siemPerNode = 0, iamPerUser = 0,
        encryptionPerTB = 0, incidentResponseRetainer = 0, userCount = 0\<rparr>\<rparr>"

section \<open>The combiner is a field-wise product\<close>

lemma combineLoop_fields:
  "MultiplierSet.energy (combineLoop a xs) =
     MultiplierSet.energy a * prod_list (map MultiplierSet.energy xs)"
  "MultiplierSet.labor (combineLoop a xs) =
     MultiplierSet.labor a * prod_list (map MultiplierSet.labor xs)"
  "MultiplierSet.compliance (combineLoop a xs) =
     MultiplierSet.compliance a * prod_list (map MultiplierSet.compliance xs)"
  "MultiplierSet.cooling (combineLoop a xs) =
     MultiplierSet.cooling a * prod_list (map MultiplierSet.cooling xs)"
  "MultiplierSet.monitoring (combineLoop a xs) =
     MultiplierSet.monitoring a * prod_list (map MultiplierSet.monitoring xs)"
  by (induction xs arbitrary: a; simp add: combineStep_def mult.assoc)+

lemma combineMultipliers_fields:
  "MultiplierSet.energy (combineMultipliers xs) = prod_list (map MultiplierSet.energy xs)"
  "MultiplierSet.labor (combineMultipliers xs) = prod_list (map MultiplierSet.labor xs)"
  "MultiplierSet.compliance (combineMultipliers xs) =
     prod_list (map MultiplierSet.compliance xs)"
  "MultiplierSet.cooling (combineMultipliers xs) = prod_list (map MultiplierSet.cooling xs)"
  "MultiplierSet.monitoring (combineMultipliers xs) =
     prod_list (map MultiplierSet.monitoring xs)"
  by (simp_all add: combineMultipliers_def combineLoop_fields)

lemma prod_list_map_perm:
  fixes f :: "'a \<Rightarrow> real"
  assumes "mset xs = mset ys"
  shows "prod_list (map f xs) = prod_list (map f ys)"
proof -
  have "prod_mset (mset (map f xs)) = prod_mset (mset (map f ys))"
    using assms by (metis mset_map)
  then show ?thesis by (simp only: prod_mset_prod_list)
qed

lemma combineMultipliers_perm:
  assumes "mset xs = mset ys"
  shows "combineMultipliers xs = combineMultipliers ys"
  by (rule MultiplierSet.equality)
     (simp_all add: combineMultipliers_fields prod_list_map_perm [OF assms])

lemma combineMultipliers_append:
  "combineMultipliers (xs @ ys) =
     combineMultipliers [combineMultipliers xs, combineMultipliers ys]"
  by (rule MultiplierSet.equality) (simp_all add: combineMultipliers_fields)

text \<open>
  Claim C9. \<open>combineMultipliers\<close> of the empty list is the all-1.0 set; of a
  one-element list \<open>[X]\<close> it is \<open>X\<close>; two lists that are permutations of each other
  (equal as multisets) combine to the same set; and the grouping does not matter:
  combining a concatenation is combining the two partial results, and
  \<open>(X * Y) * Z\<close> is \<open>X * (Y * Z)\<close>. All equalities are exact over the reals.
\<close>

theorem combineMultipliers_identity_commutative_associative:
  "combineMultipliers [] =
     \<lparr>MultiplierSet.energy = 1, MultiplierSet.labor = 1, MultiplierSet.compliance = 1,
      MultiplierSet.cooling = 1, MultiplierSet.monitoring = 1\<rparr>
   \<and> combineMultipliers [X] = X
   \<and> (mset xs = mset ys \<longrightarrow> combineMultipliers xs = combineMultipliers ys)
   \<and> combineMultipliers (xs @ ys) =
       combineMultipliers [combineMultipliers xs, combineMultipliers ys]
   \<and> combineMultipliers [combineMultipliers [X, Y], Z] =
       combineMultipliers [X, combineMultipliers [Y, Z]]"
proof (intro conjI impI)
  show "combineMultipliers [] =
     \<lparr>MultiplierSet.energy = 1, MultiplierSet.labor = 1, MultiplierSet.compliance = 1,
      MultiplierSet.cooling = 1, MultiplierSet.monitoring = 1\<rparr>"
    by (simp add: combineMultipliers_def)
  show "combineMultipliers [X] = X"
    by (simp add: combineMultipliers_def combineStep_def)
  show "combineMultipliers xs = combineMultipliers ys" if "mset xs = mset ys"
    using that by (rule combineMultipliers_perm)
  show "combineMultipliers (xs @ ys) =
      combineMultipliers [combineMultipliers xs, combineMultipliers ys]"
    by (rule combineMultipliers_append)
  show "combineMultipliers [combineMultipliers [X, Y], Z] =
      combineMultipliers [X, combineMultipliers [Y, Z]]"
    by (rule MultiplierSet.equality) (simp_all add: combineMultipliers_fields mult.assoc)
qed

text \<open>
  The permutation hypothesis is met by the region and regulatory sets taken in the
  two possible orders.
\<close>

theorem combineMultipliers_identity_commutative_associative_witness:
  "mset [getRegionMultipliers EU, getRegulatoryMultipliers High] =
     mset [getRegulatoryMultipliers High, getRegionMultipliers EU]
   \<and> combineMultipliers [getRegionMultipliers EU, getRegulatoryMultipliers High] =
       combineMultipliers [getRegulatoryMultipliers High, getRegionMultipliers EU]"
  using combineMultipliers_identity_commutative_associative
    [of "getRegionMultipliers US"
        "[getRegionMultipliers EU, getRegulatoryMultipliers High]"
        "[getRegulatoryMultipliers High, getRegionMultipliers EU]"
        "getRegionMultipliers US" "getRegionMultipliers US"]
  by (simp add: add.commute)

section \<open>The assembled breakdown\<close>

lemma combineMultipliers_three:
  "combineMultipliers [r, t, w] =
     \<lparr>MultiplierSet.energy = MultiplierSet.energy r * MultiplierSet.energy t * MultiplierSet.energy w,
      MultiplierSet.labor = MultiplierSet.labor r * MultiplierSet.labor t * MultiplierSet.labor w,
      MultiplierSet.compliance =
        MultiplierSet.compliance r * MultiplierSet.compliance t * MultiplierSet.compliance w,
      MultiplierSet.cooling = MultiplierSet.cooling r * MultiplierSet.cooling t * MultiplierSet.cooling w,
      MultiplierSet.monitoring =
        MultiplierSet.monitoring r * MultiplierSet.monitoring t * MultiplierSet.monitoring w\<rparr>"
  by (simp add: combineMultipliers_def combineStep_def)

lemma totals_computeScenarioTCO:
  "totals (computeScenarioTCO now b s c) =
     \<lparr>Totals.baseTCO = foldl (\<lambda>sum val. sum + val) 0 (Object_values b),
      Totals.adjustments =
        Adjustments.total (applyMultipliers b
          (combineMultipliers [getRegionMultipliers (ScenarioParameters.region s),
             getTimeMultipliers (ScenarioParameters.time s),
             getWorkloadMultipliers (ScenarioParameters.workload s)])),
      Totals.compliance = ComplianceCosts.total (calculateComplianceCosts s None),
      Totals.security = SecurityCosts.total (calculateSecurityCosts s c),
      Totals.risk =
        expectedAnnualLoss (calculateRiskCosts s
          (SecurityCosts.total (calculateSecurityCosts s c) +
           annualInvestment (ScenarioParameters.security s))),
      grandTotal =
        foldl (\<lambda>sum val. sum + val) 0 (Object_values b) +
        Adjustments.total (applyMultipliers b
          (combineMultipliers [getRegionMultipliers (ScenarioParameters.region s),
             getTimeMultipliers (ScenarioParameters.time s),
             getWorkloadMultipliers (ScenarioParameters.workload s)])) +
        ComplianceCosts.total (calculateComplianceCosts s None) +
        SecurityCosts.total (calculateSecurityCosts s c) +
        expectedAnnualLoss (calculateRiskCosts s
          (SecurityCosts.total (calculateSecurityCosts s c) +
           annualInvestment (ScenarioParameters.security s)))\<rparr>"
  by (simp add: computeScenarioTCO_def Let_def)

lemma layers_computeScenarioTCO:
  "ComputationBreakdown.adjustments (computeScenarioTCO now b s c) =
     applyMultipliers b
       (combineMultipliers [getRegionMultipliers (ScenarioParameters.region s),
          getTimeMultipliers (ScenarioParameters.time s),
          getWorkloadMultipliers (ScenarioParameters.workload s)])"
  "complianceCosts (computeScenarioTCO now b s c) = calculateComplianceCosts s None"
  "securityCosts (computeScenarioTCO now b s c) = calculateSecurityCosts s c"
  "riskCosts (computeScenarioTCO now b s c) =
     calculateRiskCosts s
       (SecurityCosts.total (calculateSecurityCosts s c) +
        annualInvestment (ScenarioParameters.security s))"
  "Multipliers.combined (multipliers (computeScenarioTCO now b s c)) =
     combineMultipliers [getRegionMultipliers (ScenarioParameters.region s),
          getTimeMultipliers (ScenarioParameters.time s),
          getWorkloadMultipliers (ScenarioParameters.workload s)]"
  "calculatedAt (computeScenarioTCO now b s c) = now"
  by (simp_all add: computeScenarioTCO_def Let_def)

lemma baseTCOTotal_sum:
  "foldl (\<lambda>sum val. sum + val) 0 (Object_values b) =
     BaseTCOInput.land b + BaseTCOInput.servers b + BaseTCOInput.storage b +
     BaseTCOInput.network b + BaseTCOInput.powerDistribution b + BaseTCOInput.energy b +
     BaseTCOInput.software b + BaseTCOInput.labor b"
  by (simp add: Object_values_def)

text \<open>
  Claim C1. For every base input, scenario and context (and every clock reading), the
  totals of the breakdown returned by \<open>computeScenarioTCO\<close> satisfy
  \<open>grandTotal = baseTCO + adjustments + compliance + security + risk\<close>, where
  \<open>totals.baseTCO\<close> is the sum of the eight fields of the base input and
  \<open>totals.risk\<close> is \<open>riskCosts.expectedAnnualLoss\<close>; the other three category totals
  are the \<open>total\<close> fields of their layers.
\<close>

theorem grandTotal_decomposition:
  "Totals.grandTotal (totals (computeScenarioTCO now b s c)) =
     Totals.baseTCO (totals (computeScenarioTCO now b s c)) +
     Totals.adjustments (totals (computeScenarioTCO now b s c)) +
     Totals.compliance (totals (computeScenarioTCO now b s c)) +
     Totals.security (totals (computeScenarioTCO now b s c)) +
     Totals.risk (totals (computeScenarioTCO now b s c))
   \<and> Totals.baseTCO (totals (computeScenarioTCO now b s c)) =
       BaseTCOInput.land b + BaseTCOInput.servers b + BaseTCOInput.storage b +
       BaseTCOInput.network b + BaseTCOInput.powerDistribution b + BaseTCOInput.energy b +
       BaseTCOInput.software b + BaseTCOInput.labor b
   \<and> Totals.risk (totals (computeScenarioTCO now b s c)) =
       expectedAnnualLoss (riskCosts (computeScenarioTCO now b s c))
   \<and> Totals.adjustments (totals (computeScenarioTCO now b s c)) =
       Adjustments.total (ComputationBreakdown.adjustments (computeScenarioTCO now b s c))
   \<and> Totals.compliance (totals (computeScenarioTCO now b s c)) =
       ComplianceCosts.total (complianceCosts (computeScenarioTCO now b s c))
   \<and> Totals.security (totals (computeScenarioTCO now b s c)) =
       SecurityCosts.total (securityCosts (computeScenarioTCO now b s c))"
  by (simp add: totals_computeScenarioTCO layers_computeScenarioTCO baseTCOTotal_sum)

text \<open>
  Claim C7. The adjustments are \<open>applyMultipliers\<close> of the combined multiplier set,
  and the combined set is \<open>combineMultipliers\<close> of the region, time and workload sets
  only. The regulatory set is not in the list, so replacing the regulatory intensity of
  a scenario by any other leaves the whole adjustments record (energy, labor and
  cooling adjustment and their total) and the combined multipliers unchanged.
\<close>

theorem adjustments_exclude_regulatory:
  "ComputationBreakdown.adjustments (computeScenarioTCO now' b (s\<lparr>regulatoryIntensity := r\<rparr>) c) =
     ComputationBreakdown.adjustments (computeScenarioTCO now b s c)
   \<and> ComputationBreakdown.adjustments (computeScenarioTCO now b s c) =
       applyMultipliers b (Multipliers.combined (multipliers (computeScenarioTCO now b s c)))
   \<and> Multipliers.combined (multipliers (computeScenarioTCO now b s c)) =
       combineMultipliers [getRegionMultipliers (ScenarioParameters.region s),
          getTimeMultipliers (ScenarioParameters.time s),
          getWorkloadMultipliers (ScenarioParameters.workload s)]
   \<and> Multipliers.combined (multipliers (computeScenarioTCO now' b (s\<lparr>regulatoryIntensity := r\<rparr>) c)) =
       Multipliers.combined (multipliers (computeScenarioTCO now b s c))"
  by (simp add: layers_computeScenarioTCO)

text \<open>
  Claim C5, as stated: two invocations of \<open>computeScenarioTCO\<close> on identical inputs
  return identical breakdowns, \<open>calculatedAt\<close> included. The function stamps the
  breakdown with the clock, so two invocations one millisecond apart on the same
  inputs return different breakdowns.
\<close>

theorem computeScenarioTCO_clock_counterexample:
  "computeScenarioTCO ''2024-01-01T00:00:00.000Z'' testBaseTCO testScenario testContext \<noteq>
   computeScenarioTCO ''2024-01-01T00:00:00.001Z'' testBaseTCO testScenario testContext"
proof
  assume "computeScenarioTCO ''2024-01-01T00:00:00.000Z'' testBaseTCO testScenario testContext =
   computeScenarioTCO ''2024-01-01T00:00:00.001Z'' testBaseTCO testScenario testContext"
  then have "calculatedAt (computeScenarioTCO ''2024-01-01T00:00:00.000Z'' testBaseTCO testScenario testContext) =
   calculatedAt (computeScenarioTCO ''2024-01-01T00:00:00.001Z'' testBaseTCO testScenario testContext)"
    by (rule arg_cong)
  then show False by (simp add: layers_computeScenarioTCO)
qed

text \<open>
  Claim C5, amended. Two invocations on identical inputs return breakdowns that agree
  in every field except \<open>calculatedAt\<close>, which holds the clock reading of the
  invocation: the later result is the earlier one with \<open>calculatedAt\<close> replaced.
\<close>

theorem computeScenarioTCO_deterministic_up_to_clock:
  "computeScenarioTCO now' b s c = (computeScenarioTCO now b s c)\<lparr>calculatedAt := now'\<rparr>
   \<and> calculatedAt (computeScenarioTCO now b s c) = now"
  by (simp add: computeScenarioTCO_def Let_def)

section \<open>Sensitivity to the security investment\<close>

lemma computeScenarioTCO_annualInvestment_frame:
  "computeScenarioTCO now' b
     (s\<lparr>ScenarioParameters.security := (ScenarioParameters.security s)\<lparr>annualInvestment := v\<rparr>\<rparr>) c =
   (computeScenarioTCO now b s c)
     \<lparr>riskCosts :=
        calculateRiskCosts s (SecurityCosts.total (calculateSecurityCosts s c) + v),
      totals := (totals (computeScenarioTCO now b s c))
        \<lparr>Totals.risk :=
           expectedAnnualLoss
             (calculateRiskCosts s (SecurityCosts.total (calculateSecurityCosts s c) + v)),
         Totals.grandTotal :=
           Totals.baseTCO (totals (computeScenarioTCO now b s c)) +
           Totals.adjustments (totals (computeScenarioTCO now b s c)) +
           Totals.compliance (totals (computeScenarioTCO now b s c)) +
           Totals.security (totals (computeScenarioTCO now b s c)) +
           expectedAnnualLoss
             (calculateRiskCosts s (SecurityCosts.total (calculateSecurityCosts s c) + v))\<rparr>,
      calculatedAt := now'\<rparr>"
  by (simp add: computeScenarioTCO_def Let_def calculateSecurityCosts_def
      calculateComplianceCosts_def calculateRiskCosts_def)

lemma calculateSensitivity_security:
  "calculateSensitivity nb nl nh b s c ParamSecurity p =
     \<lparr>low = computeScenarioTCO nl b
        (s\<lparr>ScenarioParameters.security := (ScenarioParameters.security s)\<lparr>annualInvestment :=
            annualInvestment (ScenarioParameters.security s) *
            (1 - (case p of None \<Rightarrow> 0.2 | Some v \<Rightarrow> v))\<rparr>\<rparr>) c,
      base = computeScenarioTCO nb b s c,
      high = computeScenarioTCO nh b
        (s\<lparr>ScenarioParameters.security := (ScenarioParameters.security s)\<lparr>annualInvestment :=
            annualInvestment (ScenarioParameters.security s) *
            (1 + (case p of None \<Rightarrow> 0.2 | Some v \<Rightarrow> v))\<rparr>\<rparr>) c\<rparr>"
  by (simp add: calculateSensitivity_def Let_def)

text \<open>
  Claim C8. In \<open>calculateSensitivity\<close> with parameter \<open>"security"\<close>, the low and the
  high breakdown have the same \<open>baseTCO\<close>, \<open>multipliers\<close>, \<open>adjustments\<close>,
  \<open>complianceCosts\<close> and \<open>securityCosts\<close> (every itemized line and the total) as the
  base breakdown. Each of them is the base breakdown with new \<open>riskCosts\<close>, new
  \<open>totals.risk\<close> and \<open>totals.grandTotal\<close>, and its own \<open>calculatedAt\<close> stamp.
\<close>

theorem sensitivity_security_changes_only_risk:
  "ComputationBreakdown.baseTCO (low (calculateSensitivity nb nl nh b s c ParamSecurity p)) =
     ComputationBreakdown.baseTCO (base (calculateSensitivity nb nl nh b s c ParamSecurity p))
   \<and> multipliers (low (calculateSensitivity nb nl nh b s c ParamSecurity p)) =
       multipliers (base (calculateSensitivity nb nl nh b s c ParamSecurity p))
   \<and> ComputationBreakdown.adjustments (low (calculateSensitivity nb nl nh b s c ParamSecurity p)) =
       ComputationBreakdown.adjustments (base (calculateSensitivity nb nl nh b s c ParamSecurity p))
   \<and> complianceCosts (low (calculateSensitivity nb nl nh b s c ParamSecurity p)) =
       complianceCosts (base (calculateSensitivity nb nl nh b s c ParamSecurity p))
   \<and> securityCosts (low (calculateSensitivity nb nl nh b s c ParamSecurity p)) =
       securityCosts (base (calculateSensitivity nb nl nh b s c ParamSecurity p))
   \<and> ComputationBreakdown.baseTCO (high (calculateSensitivity nb nl nh b s c ParamSecurity p)) =
       ComputationBreakdown.baseTCO (base (calculateSensitivity nb nl nh b s c ParamSecurity p))
   \<and> multipliers (high (calculateSensitivity nb nl nh b s c ParamSecurity p)) =
       multipliers (base (calculateSensitivity nb nl nh b s c ParamSecurity p))
   \<and> ComputationBreakdown.adjustments (high (calculateSensitivity nb nl nh b s c ParamSecurity p)) =
       ComputationBreakdown.adjustments (base (calculateSensitivity nb nl nh b s c ParamSecurity p))
   \<and> complianceCosts (high (calculateSensitivity nb nl nh b s c ParamSecurity p)) =
       complianceCosts (base (calculateSensitivity nb nl nh b s c ParamSecurity p))
   \<and> securityCosts (high (calculateSensitivity nb nl nh b s c ParamSecurity p)) =
       securityCosts (base (calculateSensitivity nb nl nh b s c ParamSecurity p))
   \<and> (\<exists>rc rt gt.
        low (calculateSensitivity nb nl nh b s c ParamSecurity p) =
          (base (calculateSensitivity nb nl nh b s c ParamSecurity p))
            \<lparr>riskCosts := rc,
             totals := (totals (base (calculateSensitivity nb nl nh b s c ParamSecurity p)))
               \<lparr>Totals.risk := rt, Totals.grandTotal := gt\<rparr>,
             calculatedAt := nl\<rparr>)
   \<and> (\<exists>rc rt gt.
        high (calculateSensitivity nb nl nh b s c ParamSecurity p) =
          (base (calculateSensitivity nb nl nh b s c ParamSecurity p))
            \<lparr>riskCosts := rc,
             totals := (totals (base (calculateSensitivity nb nl nh b s c ParamSecurity p)))
               \<lparr>Totals.risk := rt, Totals.grandTotal := gt\<rparr>,
             calculatedAt := nh\<rparr>)"
proof -
  let ?r = "calculateSensitivity nb nl nh b s c ParamSecurity p"
  let ?pp = "case p of None \<Rightarrow> 0.2 | Some v \<Rightarrow> v"
  let ?inv = "annualInvestment (ScenarioParameters.security s)"
  let ?sec = "SecurityCosts.total (calculateSecurityCosts s c)"
  let ?B = "computeScenarioTCO nb b s c"
  let ?frame = "\<lambda>v now'. ?B
     \<lparr>riskCosts := calculateRiskCosts s (?sec + v),
      totals := (totals ?B)
        \<lparr>Totals.risk := expectedAnnualLoss (calculateRiskCosts s (?sec + v)),
         Totals.grandTotal :=
           Totals.baseTCO (totals ?B) + Totals.adjustments (totals ?B) +
           Totals.compliance (totals ?B) + Totals.security (totals ?B) +
           expectedAnnualLoss (calculateRiskCosts s (?sec + v))\<rparr>,
      calculatedAt := now'\<rparr>"
  have base_eq: "base ?r = ?B"
    by (simp add: calculateSensitivity_security)
  have low_eq: "low ?r = ?frame (?inv * (1 - ?pp)) nl"
    by (simp only: calculateSensitivity_security SensitivityBreakdowns.simps
        computeScenarioTCO_annualInvestment_frame [where now' = nl and now = nb])
  have high_eq: "high ?r = ?frame (?inv * (1 + ?pp)) nh"
    by (simp only: calculateSensitivity_security SensitivityBreakdowns.simps
        computeScenarioTCO_annualInvestment_frame [where now' = nh and now = nb])
  have low_ex: "\<exists>rc rt gt. low ?r =
      (base ?r)\<lparr>riskCosts := rc,
        totals := (totals (base ?r))\<lparr>Totals.risk := rt, Totals.grandTotal := gt\<rparr>,
        calculatedAt := nl\<rparr>"
    unfolding low_eq base_eq by blast
  have high_ex: "\<exists>rc rt gt. high ?r =
      (base ?r)\<lparr>riskCosts := rc,
        totals := (totals (base ?r))\<lparr>Totals.risk := rt, Totals.grandTotal := gt\<rparr>,
        calculatedAt := nh\<rparr>"
    unfolding high_eq base_eq by blast
  show ?thesis
    using low_ex high_ex by (simp add: low_eq high_eq base_eq)
qed

section \<open>Time escalation before the baseline year\<close>

text \<open>
  Claim C6 says that the escalation factor of the time-axis resolver is exactly 1.0 for
  every year at or before the baseline year 2024. \<open>getTimeMultipliers\<close> raises
  \<open>1 + escalationRate\<close> to the (negative) number of years without a test: at year
  2023 and a rate of 10 percent its labor, energy and cooling multipliers are
  \<open>10/11\<close>, while \<open>calculateEscalationFactor\<close> returns 1 on the same input.
\<close>

theorem getTimeMultipliers_past_year_not_clamped:
  "MultiplierSet.labor
     (getTimeMultipliers
        \<lparr>year = 2023, escalationRate = 1 / 10, TimeParameters.shockFactor = None,
         shockEnabled = False\<rparr>) = 10 / 11
   \<and> MultiplierSet.energy
     (getTimeMultipliers
        \<lparr>year = 2023, escalationRate = 1 / 10, TimeParameters.shockFactor = None,
         shockEnabled = False\<rparr>) = 10 / 11
   \<and> MultiplierSet.cooling
     (getTimeMultipliers
        \<lparr>year = 2023, escalationRate = 1 / 10, TimeParameters.shockFactor = None,
         shockEnabled = False\<rparr>) = 10 / 11
   \<and> calculateEscalationFactor 2023 (1 / 10) = 1"
  by (simp add: getTimeMultipliers_def calculateEscalationFactor_def Math_pow_def
      TIME_PARAMETERS_def energyShockMultiplier_def power_int_minus Let_def)

text \<open>
  After the baseline year the two implementations agree: \<open>n\<close> years later the factor
  is \<open>(1 + rate) ^ n\<close>.
\<close>

lemma getTimeMultipliers_future_year:
  "0 < n \<Longrightarrow>
   MultiplierSet.labor (getTimeMultipliers (t\<lparr>year := baselineYear TIME_PARAMETERS + n\<rparr>)) =
     (1 + escalationRate t) ^ nat n
   \<and> calculateEscalationFactor (baselineYear TIME_PARAMETERS + n) r = (1 + r) ^ nat n"
  by (simp add: getTimeMultipliers_def calculateEscalationFactor_def Math_pow_def
      TIME_PARAMETERS_def power_int_def Let_def)

section \<open>Percentage change against a zero baseline\<close>

text \<open>
  Claim C4 says that \<open>compareScenarios\<close> returns a defined sentinel for
  \<open>percentageChange\<close> when the grand total of breakdown A is 0. It divides without a
  test: against a zero baseline the result is \<open>NaN\<close> when the grand total of B is 0
  as well, \<open>Infinity\<close> when it is positive and \<open>-Infinity\<close> when it is negative. The
  comparison panel, on the same two breakdowns, returns 0.
\<close>

theorem compareScenarios_zero_baseline_unguarded:
  "percentageChange (deltas (compareScenarios
      (bA\<lparr>totals := (totals bA)\<lparr>Totals.grandTotal := 0\<rparr>\<rparr>) bB sA sB)) =
     (if Totals.grandTotal (totals bB) = 0 then NaN
      else if 0 < Totals.grandTotal (totals bB) then PosInfinity
      else NegInfinity)
   \<and> panelPercentageChange (bA\<lparr>totals := (totals bA)\<lparr>Totals.grandTotal := 0\<rparr>\<rparr>) bB = Finite 0"
  by (simp add: compareScenarios_def panelPercentageChange_def js_divide_def Let_def)

section \<open>The risk model\<close>

lemma securityReductionFactor_eq:
  "securityReductionFactor (calculateRiskCosts s x) =
     min (maxSecurityReduction (ScenarioParameters.risk s))
         (ln (1 + x / 50000) / ln 11 * maxSecurityReduction (ScenarioParameters.risk s))"
  by (simp add: calculateRiskCosts_def Let_def referenceInvestment_def maxInvestment_def)

lemma expectedAnnualLoss_eq:
  "expectedAnnualLoss (calculateRiskCosts s x) =
     RiskParameters.baseIncidentProbability (ScenarioParameters.risk s) *
     (1 - securityReductionFactor (calculateRiskCosts s x)) *
     RiskParameters.averageImpactCost (ScenarioParameters.risk s)"
  by (simp add: calculateRiskCosts_def Let_def)

lemma investmentRatio_nonneg:
  fixes x :: real
  assumes "0 \<le> x"
  shows "0 \<le> ln (1 + x / 50000) / ln 11"
proof -
  have "0 \<le> ln (1 + x / 50000)" using assms by simp
  moreover have "0 < ln (11::real)" by simp
  ultimately show ?thesis by simp
qed

lemma investmentRatio_mono:
  fixes x y :: real
  assumes "0 \<le> x" "x \<le> y"
  shows "ln (1 + x / 50000) / ln 11 \<le> ln (1 + y / 50000) / ln 11"
proof -
  have "0 < 1 + x / 50000" using assms by (simp add: add_pos_nonneg)
  moreover have "1 + x / 50000 \<le> 1 + y / 50000" using assms by simp
  ultimately have "ln (1 + x / 50000) \<le> ln (1 + y / 50000)" by (rule ln_mono [rotated])
  moreover have "0 < ln (11::real)" by simp
  ultimately show ?thesis by (simp add: divide_right_mono)
qed

lemma securityReductionFactor_mono:
  assumes "0 \<le> maxSecurityReduction (ScenarioParameters.risk s)" "0 \<le> x" "x \<le> y"
  shows "securityReductionFactor (calculateRiskCosts s x) \<le>
         securityReductionFactor (calculateRiskCosts s y)"
proof -
  have "ln (1 + x / 50000) / ln 11 * maxSecurityReduction (ScenarioParameters.risk s) \<le>
        ln (1 + y / 50000) / ln 11 * maxSecurityReduction (ScenarioParameters.risk s)"
    using investmentRatio_mono [OF assms(2,3)] assms(1) by (rule mult_right_mono)
  then show ?thesis
    unfolding securityReductionFactor_eq by (rule min.mono [OF order_refl])
qed

text \<open>
  Claim C3. For a scenario whose \<open>risk.maxSecurityReduction\<close> lies in \<open>[0, 1]\<close> and a
  total security investment \<open>x \<ge> 0\<close>, the \<open>securityReductionFactor\<close> returned by
  \<open>calculateRiskCosts\<close> lies between 0 and \<open>maxSecurityReduction\<close>; it is 0 at
  investment 0, it does not decrease when the investment grows, and at the investment
  \<open>maxInvestment = 500000\<close> it is exactly \<open>maxSecurityReduction\<close>.
\<close>

theorem securityReductionFactor_bounds:
  assumes "0 \<le> maxSecurityReduction (ScenarioParameters.risk s)"
      and "maxSecurityReduction (ScenarioParameters.risk s) \<le> 1"
      and "0 \<le> x"
  shows "0 \<le> securityReductionFactor (calculateRiskCosts s x)
       \<and> securityReductionFactor (calculateRiskCosts s x) \<le>
           maxSecurityReduction (ScenarioParameters.risk s)
       \<and> securityReductionFactor (calculateRiskCosts s 0) = 0
       \<and> (x \<le> y \<longrightarrow>
            securityReductionFactor (calculateRiskCosts s x) \<le>
            securityReductionFactor (calculateRiskCosts s y))
       \<and> securityReductionFactor (calculateRiskCosts s maxInvestment) =
           maxSecurityReduction (ScenarioParameters.risk s)
       \<and> maxInvestment = 500000"
proof (intro conjI impI)
  let ?m = "maxSecurityReduction (ScenarioParameters.risk s)"
  have "0 \<le> ln (1 + x / 50000) / ln 11 * ?m"
    using investmentRatio_nonneg [OF assms(3)] assms(1) by (rule mult_nonneg_nonneg)
  then show "0 \<le> securityReductionFactor (calculateRiskCosts s x)"
    using assms(1) by (simp add: securityReductionFactor_eq)
  show "securityReductionFactor (calculateRiskCosts s x) \<le> ?m"
    by (simp add: securityReductionFactor_eq)
  show "securityReductionFactor (calculateRiskCosts s 0) = 0"
    using assms(1) by (simp add: securityReductionFactor_eq)
  show "securityReductionFactor (calculateRiskCosts s x) \<le>
        securityReductionFactor (calculateRiskCosts s y)" if "x \<le> y"
    using assms(1,3) that by (rule securityReductionFactor_mono)
  show "securityReductionFactor (calculateRiskCosts s maxInvestment) = ?m"
    by (simp add: securityReductionFactor_eq maxInvestment_def)
  show "maxInvestment = 500000" by (simp add: maxInvestment_def)
qed

text \<open>
  The hypotheses hold for the test scenario (\<open>maxSecurityReduction = 0.8\<close>) at the
  investments 155000 and 500000.
\<close>

theorem securityReductionFactor_bounds_witness:
  "0 \<le> maxSecurityReduction (ScenarioParameters.risk testScenario)
   \<and> maxSecurityReduction (ScenarioParameters.risk testScenario) \<le> 1
   \<and> (0::real) \<le> 155000
   \<and> (155000::real) \<le> 500000
   \<and> 0 \<le> securityReductionFactor (calculateRiskCosts testScenario 155000)
   \<and> securityReductionFactor (calculateRiskCosts testScenario 155000) \<le> 8 / 10
   \<and> securityReductionFactor (calculateRiskCosts testScenario 155000) \<le>
       securityReductionFactor (calculateRiskCosts testScenario 500000)
   \<and> securityReductionFactor (calculateRiskCosts testScenario 500000) = 8 / 10"
  using securityReductionFactor_bounds [of testScenario 155000 500000]
  by (simp add: testScenario_def maxInvestment_def)

lemma expectedAnnualLoss_antimono:
  assumes m: "0 \<le> maxSecurityReduction (ScenarioParameters.risk s)"
      and p: "0 \<le> RiskParameters.baseIncidentProbability (ScenarioParameters.risk s)"
      and a: "0 \<le> RiskParameters.averageImpactCost (ScenarioParameters.risk s)"
      and x: "0 \<le> x" and xy: "x \<le> y"
  shows "expectedAnnualLoss (calculateRiskCosts s y) \<le> expectedAnnualLoss (calculateRiskCosts s x)"
proof -
  have "1 - securityReductionFactor (calculateRiskCosts s y) \<le>
        1 - securityReductionFactor (calculateRiskCosts s x)"
    using securityReductionFactor_mono [OF m x xy] by simp
  then have "RiskParameters.baseIncidentProbability (ScenarioParameters.risk s) *
               (1 - securityReductionFactor (calculateRiskCosts s y)) \<le>
             RiskParameters.baseIncidentProbability (ScenarioParameters.risk s) *
               (1 - securityReductionFactor (calculateRiskCosts s x))"
    using p by (rule mult_left_mono)
  then show ?thesis
    unfolding expectedAnnualLoss_eq using a by (rule mult_right_mono)
qed

text \<open>
  Claim C10. \<open>security.annualInvestment\<close> is no cost term of the breakdown: it enters
  only the investment fed to the risk model. For a scenario with non-negative
  \<open>maxSecurityReduction\<close>, incident probability and impact cost, and a non-negative
  total security investment, raising \<open>annualInvestment\<close> to any larger value \<open>v\<close> with
  everything else fixed never raises \<open>totals.grandTotal\<close>: the risk total can only go
  down, and the base, adjustments, compliance and security totals stay as they are.
\<close>

theorem annualInvestment_never_raises_grandTotal:
  assumes "0 \<le> maxSecurityReduction (ScenarioParameters.risk s)"
      and "0 \<le> RiskParameters.baseIncidentProbability (ScenarioParameters.risk s)"
      and "0 \<le> RiskParameters.averageImpactCost (ScenarioParameters.risk s)"
      and "0 \<le> SecurityCosts.total (calculateSecurityCosts s c) +
                 annualInvestment (ScenarioParameters.security s)"
      and "annualInvestment (ScenarioParameters.security s) \<le> v"
  shows "Totals.grandTotal (totals (computeScenarioTCO now' b
           (s\<lparr>ScenarioParameters.security :=
              (ScenarioParameters.security s)\<lparr>annualInvestment := v\<rparr>\<rparr>) c)) \<le>
         Totals.grandTotal (totals (computeScenarioTCO now b s c))
       \<and> Totals.risk (totals (computeScenarioTCO now' b
           (s\<lparr>ScenarioParameters.security :=
              (ScenarioParameters.security s)\<lparr>annualInvestment := v\<rparr>\<rparr>) c)) \<le>
         Totals.risk (totals (computeScenarioTCO now b s c))
       \<and> Totals.baseTCO (totals (computeScenarioTCO now' b
           (s\<lparr>ScenarioParameters.security :=
              (ScenarioParameters.security s)\<lparr>annualInvestment := v\<rparr>\<rparr>) c)) =
         Totals.baseTCO (totals (computeScenarioTCO now b s c))
       \<and> Totals.adjustments (totals (computeScenarioTCO now' b
           (s\<lparr>ScenarioParameters.security :=
              (ScenarioParameters.security s)\<lparr>annualInvestment := v\<rparr>\<rparr>) c)) =
         Totals.adjustments (totals (computeScenarioTCO now b s c))
       \<and> Totals.compliance (totals (computeScenarioTCO now' b
           (s\<lparr>ScenarioParameters.security :=
              (ScenarioParameters.security s)\<lparr>annualInvestment := v\<rparr>\<rparr>) c)) =
         Totals.compliance (totals (computeScenarioTCO now b s c))
       \<and> Totals.security (totals (computeScenarioTCO now' b
           (s\<lparr>ScenarioParameters.security :=
              (ScenarioParameters.security s)\<lparr>annualInvestment := v\<rparr>\<rparr>) c)) =
         Totals.security (totals (computeScenarioTCO now b s c))"
proof -
  let ?sec = "SecurityCosts.total (calculateSecurityCosts s c)"
  let ?i = "annualInvestment (ScenarioParameters.security s)"
  have "?sec + ?i \<le> ?sec + v" using assms(5) by simp
  then have "expectedAnnualLoss (calculateRiskCosts s (?sec + v)) \<le>
             expectedAnnualLoss (calculateRiskCosts s (?sec + ?i))"
    by (rule expectedAnnualLoss_antimono [OF assms(1,2,3,4)])
  then show ?thesis
    by (simp add: computeScenarioTCO_annualInvestment_frame [where now' = now' and now = now]
        totals_computeScenarioTCO)
qed

text \<open>
  The hypotheses hold for the test scenario when its investment of 100000 is raised to
  250000.
\<close>

theorem annualInvestment_never_raises_grandTotal_witness:
  "0 \<le> maxSecurityReduction (ScenarioParameters.risk testScenario)
   \<and> 0 \<le> RiskParameters.baseIncidentProbability (ScenarioParameters.risk testScenario)
   \<and> 0 \<le> RiskParameters.averageImpactCost (ScenarioParameters.risk testScenario)
   \<and> 0 \<le> SecurityCosts.total (calculateSecurityCosts testScenario testContext) +
           annualInvestment (ScenarioParameters.security testScenario)
   \<and> annualInvestment (ScenarioParameters.security testScenario) \<le> 250000
   \<and> Totals.grandTotal (totals (computeScenarioTCO ''2024-06-01T00:00:00.000Z'' testBaseTCO
         (testScenario\<lparr>ScenarioParameters.security :=
            (ScenarioParameters.security testScenario)\<lparr>annualInvestment := 250000\<rparr>\<rparr>)
         testContext)) \<le>
       Totals.grandTotal (totals (computeScenarioTCO ''2024-06-01T00:00:00.000Z'' testBaseTCO
         testScenario testContext))"
  using annualInvestment_never_raises_grandTotal
    [of testScenario testContext 250000 "''2024-06-01T00:00:00.000Z''" testBaseTCO
        "''2024-06-01T00:00:00.000Z''"]
  by (simp add: testScenario_def testContext_def calculateSecurityCosts_def)

section \<open>Monotonicity of the grand total along the scenario axes\<close>

text \<open>
  Claim C2, as stated: moving any single axis, the security investment among them, to a
  strictly more intense setting never decreases \<open>totals.grandTotal\<close>. Raising
  \<open>annualInvestment\<close> from 0 to 500000 in a scenario without itemized security costs
  lowers the expected annual loss from 75000 to 15000 and adds no cost, so the grand
  total strictly decreases.
\<close>

theorem annualInvestment_monotonicity_counterexample:
  "Totals.grandTotal (totals (computeScenarioTCO ''2024-06-01T00:00:00.000Z'' testBaseTCO
       (noSecurityScenario\<lparr>ScenarioParameters.security :=
          (ScenarioParameters.security noSecurityScenario)\<lparr>annualInvestment := 500000\<rparr>\<rparr>)
       testContext)) <
   Totals.grandTotal (totals (computeScenarioTCO ''2024-06-01T00:00:00.000Z'' testBaseTCO
       noSecurityScenario testContext))"
proof -
  have sec0: "SecurityCosts.total (calculateSecurityCosts noSecurityScenario testContext) = 0"
    by (simp add: calculateSecurityCosts_def noSecurityScenario_def testScenario_def)
  have inv0: "annualInvestment (ScenarioParameters.security noSecurityScenario) = 0"
    by (simp add: noSecurityScenario_def)
  have lo: "expectedAnnualLoss (calculateRiskCosts noSecurityScenario 0) = 75000"
    by (simp add: expectedAnnualLoss_eq securityReductionFactor_eq noSecurityScenario_def
        testScenario_def)
  have hi: "expectedAnnualLoss (calculateRiskCosts noSecurityScenario 500000) = 15000"
    by (simp add: expectedAnnualLoss_eq securityReductionFactor_eq noSecurityScenario_def
        testScenario_def)
  show ?thesis
    by (simp add: computeScenarioTCO_annualInvestment_frame
          [where now' = "''2024-06-01T00:00:00.000Z''" and now = "''2024-06-01T00:00:00.000Z''"]
        totals_computeScenarioTCO sec0 inv0 lo hi)
qed

lemma applyMultipliers_total_mono:
  assumes "0 \<le> BaseTCOInput.energy b" "0 \<le> BaseTCOInput.labor b"
      and "0 \<le> BaseTCOInput.powerDistribution b"
      and "MultiplierSet.energy m \<le> MultiplierSet.energy m'"
      and "MultiplierSet.labor m \<le> MultiplierSet.labor m'"
      and "MultiplierSet.cooling m \<le> MultiplierSet.cooling m'"
  shows "Adjustments.total (applyMultipliers b m) \<le> Adjustments.total (applyMultipliers b m')"
proof -
  have "BaseTCOInput.energy b * (MultiplierSet.energy m - 1) \<le>
        BaseTCOInput.energy b * (MultiplierSet.energy m' - 1)"
    using assms(1,4) by (simp add: mult_left_mono)
  moreover have "BaseTCOInput.labor b * (MultiplierSet.labor m - 1) \<le>
        BaseTCOInput.labor b * (MultiplierSet.labor m' - 1)"
    using assms(2,5) by (simp add: mult_left_mono)
  moreover have "BaseTCOInput.powerDistribution b * 0.4 * (MultiplierSet.cooling m - 1) \<le>
        BaseTCOInput.powerDistribution b * 0.4 * (MultiplierSet.cooling m' - 1)"
    using assms(3,6) by (simp add: mult_left_mono)
  ultimately show ?thesis
    by (simp add: applyMultipliers_def Let_def)
qed

lemma getRegionMultipliers_pos:
  "0 < MultiplierSet.energy (getRegionMultipliers r)"
  "0 < MultiplierSet.labor (getRegionMultipliers r)"
  "MultiplierSet.cooling (getRegionMultipliers r) = 1"
  by (cases r; simp add: getRegionMultipliers_def)+

lemma getRegionMultipliers_le_EU:
  "MultiplierSet.energy (getRegionMultipliers r) \<le> MultiplierSet.energy (getRegionMultipliers EU)"
  "MultiplierSet.labor (getRegionMultipliers r) \<le> MultiplierSet.labor (getRegionMultipliers EU)"
  by (cases r; simp add: getRegionMultipliers_def)+

lemma getWorkloadMultipliers_pos:
  "0 < MultiplierSet.energy (getWorkloadMultipliers w)"
  "MultiplierSet.labor (getWorkloadMultipliers w) = 1"
  "0 < MultiplierSet.cooling (getWorkloadMultipliers w)"
  by (cases "utilizationClass w";
      simp add: getWorkloadMultipliers_def WORKLOAD_PARAMETERS_AI_accelerated_def Let_def)+

lemma getWorkloadMultipliers_mono:
  assumes "levelRank (utilizationClass w) \<le> levelRank k"
  shows "MultiplierSet.energy (getWorkloadMultipliers w) \<le>
         MultiplierSet.energy (getWorkloadMultipliers (w\<lparr>utilizationClass := k\<rparr>))"
    and "MultiplierSet.cooling (getWorkloadMultipliers w) \<le>
         MultiplierSet.cooling (getWorkloadMultipliers (w\<lparr>utilizationClass := k\<rparr>))"
  using assms
  by (cases "utilizationClass w"; cases k;
      simp add: getWorkloadMultipliers_def WORKLOAD_PARAMETERS_AI_accelerated_def Let_def)+

lemma energyShockMultiplier_nonneg:
  assumes "case TimeParameters.shockFactor t of None \<Rightarrow> True | Some v \<Rightarrow> 0 \<le> v"
  shows "0 \<le> energyShockMultiplier t"
  using assms by (simp add: energyShockMultiplier_def split: option.splits)

lemma energyShockMultiplier_year [simp]:
  "energyShockMultiplier (t\<lparr>year := y\<rparr>) = energyShockMultiplier t"
  by (simp add: energyShockMultiplier_def)

lemma getTimeMultipliers_fields:
  "MultiplierSet.energy (getTimeMultipliers t) =
     (1 + escalationRate t) powi (year t - 2024) * energyShockMultiplier t"
  "MultiplierSet.labor (getTimeMultipliers t) = (1 + escalationRate t) powi (year t - 2024)"
  "MultiplierSet.cooling (getTimeMultipliers t) = (1 + escalationRate t) powi (year t - 2024)"
  by (simp_all add: getTimeMultipliers_def Math_pow_def TIME_PARAMETERS_def Let_def)

lemma getTimeMultipliers_nonneg:
  assumes "0 \<le> escalationRate t"
      and "case TimeParameters.shockFactor t of None \<Rightarrow> True | Some v \<Rightarrow> 0 \<le> v"
  shows "0 \<le> MultiplierSet.energy (getTimeMultipliers t)"
    and "0 \<le> MultiplierSet.labor (getTimeMultipliers t)"
    and "0 \<le> MultiplierSet.cooling (getTimeMultipliers t)"
  using assms(1) energyShockMultiplier_nonneg [OF assms(2)]
  by (simp_all add: getTimeMultipliers_fields)

lemma getTimeMultipliers_mono:
  assumes "0 \<le> escalationRate t"
      and "case TimeParameters.shockFactor t of None \<Rightarrow> True | Some v \<Rightarrow> 0 \<le> v"
      and "year t \<le> y"
  shows "MultiplierSet.energy (getTimeMultipliers t) \<le>
         MultiplierSet.energy (getTimeMultipliers (t\<lparr>year := y\<rparr>))"
    and "MultiplierSet.labor (getTimeMultipliers t) \<le>
         MultiplierSet.labor (getTimeMultipliers (t\<lparr>year := y\<rparr>))"
    and "MultiplierSet.cooling (getTimeMultipliers t) \<le>
         MultiplierSet.cooling (getTimeMultipliers (t\<lparr>year := y\<rparr>))"
proof -
  have pw: "(1 + escalationRate t) powi (year t - 2024) \<le> (1 + escalationRate t) powi (y - 2024)"
    using assms(1,3) by (intro power_int_increasing) simp_all
  show "MultiplierSet.energy (getTimeMultipliers t) \<le>
         MultiplierSet.energy (getTimeMultipliers (t\<lparr>year := y\<rparr>))"
    using pw energyShockMultiplier_nonneg [OF assms(2)]
    by (simp add: getTimeMultipliers_fields mult_right_mono)
  show "MultiplierSet.labor (getTimeMultipliers t) \<le>
         MultiplierSet.labor (getTimeMultipliers (t\<lparr>year := y\<rparr>))"
    using pw by (simp add: getTimeMultipliers_fields)
  show "MultiplierSet.cooling (getTimeMultipliers t) \<le>
         MultiplierSet.cooling (getTimeMultipliers (t\<lparr>year := y\<rparr>))"
    using pw by (simp add: getTimeMultipliers_fields)
qed

lemma complianceTotal_values:
  "ComplianceCosts.total (calculateComplianceCosts s None) =
     (case regulatoryIntensity s of Low \<Rightarrow> 87500 | Medium \<Rightarrow> 162500 | High \<Rightarrow> 435000)"
  by (cases "regulatoryIntensity s";
      simp add: calculateComplianceCosts_def COMPLIANCE_BASE_COSTS_def Let_def)

lemma complianceTotal_mono:
  assumes "levelRank (regulatoryIntensity s) \<le> levelRank k"
  shows "ComplianceCosts.total (calculateComplianceCosts s None) \<le>
         ComplianceCosts.total (calculateComplianceCosts (s\<lparr>regulatoryIntensity := k\<rparr>) None)"
  using assms
  by (cases "regulatoryIntensity s"; cases k; simp add: complianceTotal_values)

lemma combined_three_mono:
  fixes r t w r' t' w' :: MultiplierSet
  assumes "0 \<le> MultiplierSet.energy r" "0 \<le> MultiplierSet.energy t" "0 \<le> MultiplierSet.energy w"
      and "0 \<le> MultiplierSet.labor r" "0 \<le> MultiplierSet.labor t" "0 \<le> MultiplierSet.labor w"
      and "0 \<le> MultiplierSet.cooling r" "0 \<le> MultiplierSet.cooling t" "0 \<le> MultiplierSet.cooling w"
      and "MultiplierSet.energy r \<le> MultiplierSet.energy r'"
          "MultiplierSet.energy t \<le> MultiplierSet.energy t'"
          "MultiplierSet.energy w \<le> MultiplierSet.energy w'"
      and "MultiplierSet.labor r \<le> MultiplierSet.labor r'"
          "MultiplierSet.labor t \<le> MultiplierSet.labor t'"
          "MultiplierSet.labor w \<le> MultiplierSet.labor w'"
      and "MultiplierSet.cooling r \<le> MultiplierSet.cooling r'"
          "MultiplierSet.cooling t \<le> MultiplierSet.cooling t'"
          "MultiplierSet.cooling w \<le> MultiplierSet.cooling w'"
  shows "MultiplierSet.energy (combineMultipliers [r, t, w]) \<le>
         MultiplierSet.energy (combineMultipliers [r', t', w'])"
    and "MultiplierSet.labor (combineMultipliers [r, t, w]) \<le>
         MultiplierSet.labor (combineMultipliers [r', t', w'])"
    and "MultiplierSet.cooling (combineMultipliers [r, t, w]) \<le>
         MultiplierSet.cooling (combineMultipliers [r', t', w'])"
  using assms by (simp_all add: combineMultipliers_three mult_mono)

lemma grandTotal_year_mono:
  assumes b: "0 \<le> BaseTCOInput.energy b" "0 \<le> BaseTCOInput.labor b"
             "0 \<le> BaseTCOInput.powerDistribution b"
      and rate: "0 \<le> escalationRate (ScenarioParameters.time s)"
      and shock: "case TimeParameters.shockFactor (ScenarioParameters.time s) of
                    None \<Rightarrow> True | Some v \<Rightarrow> 0 \<le> v"
      and y: "year (ScenarioParameters.time s) \<le> y"
  shows "Totals.grandTotal (totals (computeScenarioTCO now b s c)) \<le>
         Totals.grandTotal (totals (computeScenarioTCO now' b
           (s\<lparr>ScenarioParameters.time := (ScenarioParameters.time s)\<lparr>year := y\<rparr>\<rparr>) c))"
proof -
  let ?R = "getRegionMultipliers (ScenarioParameters.region s)"
  let ?T = "getTimeMultipliers (ScenarioParameters.time s)"
  let ?T' = "getTimeMultipliers ((ScenarioParameters.time s)\<lparr>year := y\<rparr>)"
  let ?W = "getWorkloadMultipliers (ScenarioParameters.workload s)"
  note R = getRegionMultipliers_pos [of "ScenarioParameters.region s"]
  note W = getWorkloadMultipliers_pos [of "ScenarioParameters.workload s"]
  note T = getTimeMultipliers_nonneg [OF rate shock]
  note TT = getTimeMultipliers_mono [OF rate shock y]
  have adj: "Adjustments.total (applyMultipliers b (combineMultipliers [?R, ?T, ?W])) \<le>
             Adjustments.total (applyMultipliers b (combineMultipliers [?R, ?T', ?W]))"
    by (rule applyMultipliers_total_mono [OF b])
       (rule combined_three_mono; simp add: R W T TT less_imp_le)+
  have same:
    "calculateComplianceCosts
       (s\<lparr>ScenarioParameters.time := (ScenarioParameters.time s)\<lparr>year := y\<rparr>\<rparr>) None =
     calculateComplianceCosts s None"
    "calculateSecurityCosts
       (s\<lparr>ScenarioParameters.time := (ScenarioParameters.time s)\<lparr>year := y\<rparr>\<rparr>) c =
     calculateSecurityCosts s c"
    "\<And>x. calculateRiskCosts
       (s\<lparr>ScenarioParameters.time := (ScenarioParameters.time s)\<lparr>year := y\<rparr>\<rparr>) x =
     calculateRiskCosts s x"
    by (simp_all add: calculateComplianceCosts_def calculateSecurityCosts_def
        calculateRiskCosts_def)
  show ?thesis
    using adj by (simp add: totals_computeScenarioTCO same)
qed

lemma grandTotal_workload_mono:
  assumes b: "0 \<le> BaseTCOInput.energy b" "0 \<le> BaseTCOInput.labor b"
             "0 \<le> BaseTCOInput.powerDistribution b"
      and rate: "0 \<le> escalationRate (ScenarioParameters.time s)"
      and shock: "case TimeParameters.shockFactor (ScenarioParameters.time s) of
                    None \<Rightarrow> True | Some v \<Rightarrow> 0 \<le> v"
      and k: "levelRank (utilizationClass (ScenarioParameters.workload s)) \<le> levelRank k"
  shows "Totals.grandTotal (totals (computeScenarioTCO now b s c)) \<le>
         Totals.grandTotal (totals (computeScenarioTCO now' b
           (s\<lparr>ScenarioParameters.workload :=
              (ScenarioParameters.workload s)\<lparr>utilizationClass := k\<rparr>\<rparr>) c))"
proof -
  let ?R = "getRegionMultipliers (ScenarioParameters.region s)"
  let ?T = "getTimeMultipliers (ScenarioParameters.time s)"
  let ?W = "getWorkloadMultipliers (ScenarioParameters.workload s)"
  let ?W' = "getWorkloadMultipliers ((ScenarioParameters.workload s)\<lparr>utilizationClass := k\<rparr>)"
  note R = getRegionMultipliers_pos [of "ScenarioParameters.region s"]
  note W = getWorkloadMultipliers_pos [of "ScenarioParameters.workload s"]
  note W' = getWorkloadMultipliers_pos
              [of "(ScenarioParameters.workload s)\<lparr>utilizationClass := k\<rparr>"]
  note T = getTimeMultipliers_nonneg [OF rate shock]
  note WW = getWorkloadMultipliers_mono [OF k]
  have adj: "Adjustments.total (applyMultipliers b (combineMultipliers [?R, ?T, ?W])) \<le>
             Adjustments.total (applyMultipliers b (combineMultipliers [?R, ?T, ?W']))"
    by (rule applyMultipliers_total_mono [OF b])
       (rule combined_three_mono; simp add: R W W' T WW less_imp_le)+
  have same:
    "calculateComplianceCosts
       (s\<lparr>ScenarioParameters.workload :=
          (ScenarioParameters.workload s)\<lparr>utilizationClass := k\<rparr>\<rparr>) None =
     calculateComplianceCosts s None"
    "calculateSecurityCosts
       (s\<lparr>ScenarioParameters.workload :=
          (ScenarioParameters.workload s)\<lparr>utilizationClass := k\<rparr>\<rparr>) c =
     calculateSecurityCosts s c"
    "\<And>x. calculateRiskCosts
       (s\<lparr>ScenarioParameters.workload :=
          (ScenarioParameters.workload s)\<lparr>utilizationClass := k\<rparr>\<rparr>) x =
     calculateRiskCosts s x"
    by (simp_all add: calculateComplianceCosts_def calculateSecurityCosts_def
        calculateRiskCosts_def)
  show ?thesis
    using adj by (simp add: totals_computeScenarioTCO same)
qed

lemma grandTotal_regulatory_mono:
  assumes k: "levelRank (regulatoryIntensity s) \<le> levelRank k"
  shows "Totals.grandTotal (totals (computeScenarioTCO now b s c)) \<le>
         Totals.grandTotal (totals (computeScenarioTCO now' b (s\<lparr>regulatoryIntensity := k\<rparr>) c))"
proof -
  have same:
    "calculateSecurityCosts (s\<lparr>regulatoryIntensity := k\<rparr>) c = calculateSecurityCosts s c"
    "\<And>x. calculateRiskCosts (s\<lparr>regulatoryIntensity := k\<rparr>) x = calculateRiskCosts s x"
    by (simp_all add: calculateSecurityCosts_def calculateRiskCosts_def)
  show ?thesis
    using complianceTotal_mono [OF k] by (simp add: totals_computeScenarioTCO same)
qed

lemma grandTotal_region_EU_mono:
  assumes b: "0 \<le> BaseTCOInput.energy b" "0 \<le> BaseTCOInput.labor b"
             "0 \<le> BaseTCOInput.powerDistribution b"
      and rate: "0 \<le> escalationRate (ScenarioParameters.time s)"
      and shock: "case TimeParameters.shockFactor (ScenarioParameters.time s) of
                    None \<Rightarrow> True | Some v \<Rightarrow> 0 \<le> v"
  shows "Totals.grandTotal (totals (computeScenarioTCO now b s c)) \<le>
         Totals.grandTotal (totals (computeScenarioTCO now' b
           (s\<lparr>ScenarioParameters.region := EU\<rparr>) c))"
proof -
  let ?R = "getRegionMultipliers (ScenarioParameters.region s)"
  let ?R' = "getRegionMultipliers EU"
  let ?T = "getTimeMultipliers (ScenarioParameters.time s)"
  let ?W = "getWorkloadMultipliers (ScenarioParameters.workload s)"
  note R = getRegionMultipliers_pos [of "ScenarioParameters.region s"]
  note R' = getRegionMultipliers_pos [of EU]
  note W = getWorkloadMultipliers_pos [of "ScenarioParameters.workload s"]
  note T = getTimeMultipliers_nonneg [OF rate shock]
  note RR = getRegionMultipliers_le_EU [of "ScenarioParameters.region s"]
  have adj: "Adjustments.total (applyMultipliers b (combineMultipliers [?R, ?T, ?W])) \<le>
             Adjustments.total (applyMultipliers b (combineMultipliers [?R', ?T, ?W]))"
    by (rule applyMultipliers_total_mono [OF b])
       (rule combined_three_mono; simp add: R R' W T RR less_imp_le)+
  have same:
    "calculateComplianceCosts (s\<lparr>ScenarioParameters.region := EU\<rparr>) None =
     calculateComplianceCosts s None"
    "calculateSecurityCosts (s\<lparr>ScenarioParameters.region := EU\<rparr>) c =
     calculateSecurityCosts s c"
    "\<And>x. calculateRiskCosts (s\<lparr>ScenarioParameters.region := EU\<rparr>) x =
     calculateRiskCosts s x"
    by (simp_all add: calculateComplianceCosts_def calculateSecurityCosts_def
        calculateRiskCosts_def)
  show ?thesis
    using adj by (simp add: totals_computeScenarioTCO same)
qed

text \<open>
  The region axis carries no order that makes the grand total monotone: \<open>Global\<close> has
  the higher energy multiplier and \<open>US\<close> the higher labor multiplier, so each of the
  two is the cheaper one for some base costs.
\<close>

lemma region_US_Global_not_ordered:
  "Totals.grandTotal (totals (computeScenarioTCO now
       (testBaseTCO\<lparr>BaseTCOInput.energy := 0\<rparr>)
       (testScenario\<lparr>ScenarioParameters.region := Global\<rparr>) testContext)) <
   Totals.grandTotal (totals (computeScenarioTCO now
       (testBaseTCO\<lparr>BaseTCOInput.energy := 0\<rparr>)
       (testScenario\<lparr>ScenarioParameters.region := US\<rparr>) testContext))
   \<and> Totals.grandTotal (totals (computeScenarioTCO now
       (testBaseTCO\<lparr>BaseTCOInput.labor := 0\<rparr>)
       (testScenario\<lparr>ScenarioParameters.region := US\<rparr>) testContext)) <
   Totals.grandTotal (totals (computeScenarioTCO now
       (testBaseTCO\<lparr>BaseTCOInput.labor := 0\<rparr>)
       (testScenario\<lparr>ScenarioParameters.region := Global\<rparr>) testContext))"
proof -
  have same:
    "\<And>r. calculateComplianceCosts (testScenario\<lparr>ScenarioParameters.region := r\<rparr>) None =
     calculateComplianceCosts testScenario None"
    "\<And>r. calculateSecurityCosts (testScenario\<lparr>ScenarioParameters.region := r\<rparr>) testContext =
     calculateSecurityCosts testScenario testContext"
    "\<And>r x. calculateRiskCosts (testScenario\<lparr>ScenarioParameters.region := r\<rparr>) x =
     calculateRiskCosts testScenario x"
    by (simp_all add: calculateComplianceCosts_def calculateSecurityCosts_def
        calculateRiskCosts_def)
  have t: "getTimeMultipliers (ScenarioParameters.time testScenario) =
     \<lparr>MultiplierSet.energy = 1, MultiplierSet.labor = 1, MultiplierSet.compliance = 1,
      MultiplierSet.cooling = 1, MultiplierSet.monitoring = 1\<rparr>"
    by (simp add: getTimeMultipliers_def testScenario_def Math_pow_def TIME_PARAMETERS_def
        energyShockMultiplier_def Let_def)
  have w: "getWorkloadMultipliers (ScenarioParameters.workload testScenario) =
     \<lparr>MultiplierSet.energy = 1, MultiplierSet.labor = 1, MultiplierSet.compliance = 1,
      MultiplierSet.cooling = 1, MultiplierSet.monitoring = 1\<rparr>"
    by (simp add: getWorkloadMultipliers_def testScenario_def Let_def)
  have tw: "ScenarioParameters.time (testScenario\<lparr>ScenarioParameters.region := r\<rparr>) =
      ScenarioParameters.time testScenario"
      "ScenarioParameters.workload (testScenario\<lparr>ScenarioParameters.region := r\<rparr>) =
      ScenarioParameters.workload testScenario" for r
    by simp_all
  show ?thesis
    by (simp add: totals_computeScenarioTCO same tw t w combineMultipliers_three
        getRegionMultipliers_def applyMultipliers_def Object_values_def testBaseTCO_def Let_def
        del: ScenarioParameters.simps)
qed

text \<open>
  Claim C2, amended. For non-negative base costs for energy, labor and power
  distribution, a non-negative escalation rate and a shock factor that is missing or
  non-negative, \<open>totals.grandTotal\<close> does not decrease when, with all other inputs
  fixed, the year is moved later, the workload class is moved up in the order
  Low, Medium, High, the regulatory intensity is moved up in the same order, or the
  region is changed to EU.
\<close>

theorem grandTotal_monotone_in_year_workload_regulatory_region:
  assumes "0 \<le> BaseTCOInput.energy b" and "0 \<le> BaseTCOInput.labor b"
      and "0 \<le> BaseTCOInput.powerDistribution b"
      and "0 \<le> escalationRate (ScenarioParameters.time s)"
      and "case TimeParameters.shockFactor (ScenarioParameters.time s) of
             None \<Rightarrow> True | Some v \<Rightarrow> 0 \<le> v"
  shows "(year (ScenarioParameters.time s) \<le> y \<longrightarrow>
            Totals.grandTotal (totals (computeScenarioTCO now b s c)) \<le>
            Totals.grandTotal (totals (computeScenarioTCO now' b
              (s\<lparr>ScenarioParameters.time := (ScenarioParameters.time s)\<lparr>year := y\<rparr>\<rparr>) c)))
       \<and> (levelRank (utilizationClass (ScenarioParameters.workload s)) \<le> levelRank k \<longrightarrow>
            Totals.grandTotal (totals (computeScenarioTCO now b s c)) \<le>
            Totals.grandTotal (totals (computeScenarioTCO now' b
              (s\<lparr>ScenarioParameters.workload :=
                 (ScenarioParameters.workload s)\<lparr>utilizationClass := k\<rparr>\<rparr>) c)))
       \<and> (levelRank (regulatoryIntensity s) \<le> levelRank k' \<longrightarrow>
            Totals.grandTotal (totals (computeScenarioTCO now b s c)) \<le>
            Totals.grandTotal (totals (computeScenarioTCO now' b
              (s\<lparr>regulatoryIntensity := k'\<rparr>) c)))
       \<and> Totals.grandTotal (totals (computeScenarioTCO now b s c)) \<le>
           Totals.grandTotal (totals (computeScenarioTCO now' b
             (s\<lparr>ScenarioParameters.region := EU\<rparr>) c))"
  using grandTotal_year_mono [OF assms] grandTotal_workload_mono [OF assms]
    grandTotal_regulatory_mono grandTotal_region_EU_mono [OF assms]
  by blast

text \<open>
  The hypotheses hold for the test scenario and the sample base costs, moved to the
  year 2027, to the workload class High, to the regulatory intensity High and to EU.
\<close>

theorem grandTotal_monotone_in_year_workload_regulatory_region_witness:
  "0 \<le> BaseTCOInput.energy testBaseTCO \<and> 0 \<le> BaseTCOInput.labor testBaseTCO
   \<and> 0 \<le> BaseTCOInput.powerDistribution testBaseTCO
   \<and> 0 \<le> escalationRate (ScenarioParameters.time testScenario)
   \<and> (case TimeParameters.shockFactor (ScenarioParameters.time testScenario) of
         None \<Rightarrow> True | Some v \<Rightarrow> 0 \<le> v)
   \<and> year (ScenarioParameters.time testScenario) \<le> 2027
   \<and> levelRank (utilizationClass (ScenarioParameters.workload testScenario)) \<le> levelRank High
   \<and> levelRank (regulatoryIntensity testScenario) \<le> levelRank High
   \<and> Totals.grandTotal (totals (computeScenarioTCO ''2024-06-01T00:00:00.000Z''
         testBaseTCO testScenario testContext)) \<le>
       Totals.grandTotal (totals (computeScenarioTCO ''2024-06-01T00:00:00.000Z'' testBaseTCO
         (testScenario\<lparr>ScenarioParameters.time :=
            (ScenarioParameters.time testScenario)\<lparr>year := 2027\<rparr>\<rparr>) testContext))
   \<and> Totals.grandTotal (totals (computeScenarioTCO ''2024-06-01T00:00:00.000Z''
         testBaseTCO testScenario testContext)) \<le>
       Totals.grandTotal (totals (computeScenarioTCO ''2024-06-01T00:00:00.000Z'' testBaseTCO
         (testScenario\<lparr>ScenarioParameters.workload :=
            (ScenarioParameters.workload testScenario)\<lparr>utilizationClass := High\<rparr>\<rparr>)
         testContext))
   \<and> Totals.grandTotal (totals (computeScenarioTCO ''2024-06-01T00:00:00.000Z''
         testBaseTCO testScenario testContext)) \<le>
       Totals.grandTotal (totals (computeScenarioTCO ''2024-06-01T00:00:00.000Z'' testBaseTCO
         (testScenario\<lparr>regulatoryIntensity := High\<rparr>) testContext))
   \<and> Totals.grandTotal (totals (computeScenarioTCO ''2024-06-01T00:00:00.000Z''
         testBaseTCO testScenario testContext)) \<le>
       Totals.grandTotal (totals (computeScenarioTCO ''2024-06-01T00:00:00.000Z'' testBaseTCO
         (testScenario\<lparr>ScenarioParameters.region := EU\<rparr>) testContext))"
proof -
  have h: "0 \<le> BaseTCOInput.energy testBaseTCO" "0 \<le> BaseTCOInput.labor testBaseTCO"
    "0 \<le> BaseTCOInput.powerDistribution testBaseTCO"
    "0 \<le> escalationRate (ScenarioParameters.time testScenario)"
    "case TimeParameters.shockFactor (ScenarioParameters.time testScenario) of
       None \<Rightarrow> True | Some v \<Rightarrow> 0 \<le> v"
    by (simp_all add: testBaseTCO_def testScenario_def)
  have r: "year (ScenarioParameters.time testScenario) \<le> 2027"
    "levelRank (utilizationClass (ScenarioParameters.workload testScenario)) \<le> levelRank High"
    "levelRank (regulatoryIntensity testScenario) \<le> levelRank High"
    by (simp_all add: testScenario_def)
  note thm1 = grandTotal_monotone_in_year_workload_regulatory_region
      [OF h, where y = 2027 and k = High and k' = High and c = testContext
         and now = "''2024-06-01T00:00:00.000Z''" and now' = "''2024-06-01T00:00:00.000Z''"]
  show ?thesis
    using h r thm1 by blast
qed

end
